(* ===== verification/Prelude.thy ===== *)
theory Prelude
  imports Main "HOL-Library.Sublist"
begin

text \<open>
  Shared vocabulary of the development.  Python text (\<open>str\<close>) is modelled by the
  UTF-8 bytes the render pipeline writes to disk: a \<^typ>\<open>string\<close> whose \<^typ>\<open>char\<close>s
  are bytes.  UTF-8 is a homomorphism for concatenation, so f-string interpolation is
  list append.  This theory gives the Python string operations the program uses
  (\<open>in\<close>, \<open>lower\<close>, \<open>upper\<close>, the slice \<open>s[:n]\<close>, \<open>str\<close> of an int) and the
  list lemmas the component theories share.
\<close>

named_theorems text_simps "evaluation rules of the Python string helpers"

type_synonym pystr = string

subsection \<open>Building text\<close>

definition ind :: "nat \<Rightarrow> string \<Rightarrow> string" where
  "ind n s = replicate n CHR '' '' @ s"

definition newline :: char where
  "newline = CHR 0x0A"

text \<open>A triple-quoted literal: its lines, each followed by a newline.\<close>

definition unlines :: "string list \<Rightarrow> string" where
  "unlines ls = concat (map (\<lambda>l. l @ [newline]) ls)"

subsection \<open>Python \<open>needle in haystack\<close> on \<open>str\<close>\<close>

definition str_in :: "string \<Rightarrow> string \<Rightarrow> bool" where
  "str_in p s = sublist p s"

subsection \<open>ASCII case mapping: \<open>str.lower\<close>, \<open>str.upper\<close>\<close>

text \<open>
  Python lowercases every Unicode letter.  On the UTF-8 bytes the model maps the ASCII
  letters only; bytes of multi-byte sequences (all \<open>\<ge> 0x80\<close>) are left alone.  For
  a search of an ASCII pattern without the letter \<open>k\<close> (the only ASCII letter that a
  non-ASCII capital, the Kelvin sign, lowercases to) the two agree.
\<close>

definition lower_char :: "char \<Rightarrow> char" where
  "lower_char c = (if (65::nat) \<le> of_char c \<and> of_char c \<le> (90::nat) then char_of (of_char c + (32::nat)) else c)"

definition upper_char :: "char \<Rightarrow> char" where
  "upper_char c = (if (97::nat) \<le> of_char c \<and> of_char c \<le> (122::nat) then char_of (of_char c - (32::nat)) else c)"

definition py_lower :: "string \<Rightarrow> string" where
  "py_lower s = map lower_char s"

definition py_upper :: "string \<Rightarrow> string" where
  "py_upper s = map upper_char s"

subsection \<open>The slice \<open>s[:n]\<close> on UTF-8 text\<close>

text \<open>
  Python slices count code points.  On the UTF-8 bytes a code point is a lead byte
  followed by its continuation bytes (\<open>0x80\<close> to \<open>0xBF\<close>): the slice keeps the
  first \<open>n\<close> lead bytes with their continuations.
\<close>

definition utf8_cont :: "char \<Rightarrow> bool" where
  "utf8_cont c \<longleftrightarrow> (128::nat) \<le> of_char c \<and> of_char c < (192::nat)"

fun utf8_take :: "nat \<Rightarrow> string \<Rightarrow> string" where
  "utf8_take n [] = []"
| "utf8_take n (c # cs) =
     (if utf8_cont c then c # utf8_take n cs
      else (case n of 0 \<Rightarrow> [] | Suc m \<Rightarrow> c # utf8_take m cs))"

definition ascii :: "string \<Rightarrow> bool" where
  "ascii s \<longleftrightarrow> list_all (\<lambda>c. of_char c < (128::nat)) s"

subsection \<open>\<open>str\<close> of an int\<close>

fun nat_str :: "nat \<Rightarrow> string" where
  "nat_str n =
     (if n < 10 then [char_of (48 + n)] else nat_str (n div 10) @ [char_of (48 + n mod 10)])"

declare nat_str.simps [simp del]

definition int_str :: "int \<Rightarrow> string" where
  "int_str i = (if i < 0 then CHR ''-'' # nat_str (nat (- i)) else nat_str (nat i))"

subsection \<open>Facts: Python \<open>needle in haystack\<close> on \<open>str\<close>\<close>

lemma str_in_code [text_simps]:
  "str_in [] s = True"
  "str_in (c # p) [] = False"
  "str_in (c # p) (d # s) = (prefix (c # p) (d # s) \<or> str_in (c # p) s)"
  by (simp_all add: str_in_def sublist_code)

lemma str_in_append_middle [intro]: "str_in p (a @ p @ b)"
  unfolding str_in_def by (rule sublist_appendI)

lemma str_in_trans: "str_in p q \<Longrightarrow> str_in q s \<Longrightarrow> str_in p s"
  unfolding str_in_def by (rule sublist_order.order.trans)

lemma str_in_append_left [intro]: "str_in p s \<Longrightarrow> str_in p (a @ s)"
  unfolding str_in_def by (metis sublist_append_leftI sublist_order.order.trans)

lemma str_in_append_right [intro]: "str_in p s \<Longrightarrow> str_in p (s @ b)"
  unfolding str_in_def by (metis sublist_append_rightI sublist_order.order.trans)

lemma str_in_concat: "x \<in> set xs \<Longrightarrow> str_in x (concat xs)"
proof (induction xs)
  case Nil
  then show ?case by simp
next
  case (Cons y ys)
  show ?case
  proof (cases "x = y")
    case True
    have "str_in y (y @ concat ys)" using str_in_append_middle [of y "[]"] by simp
    with True show ?thesis by simp
  next
    case False
    with Cons have "str_in x (concat ys)" by simp
    then show ?thesis by (simp add: str_in_append_left)
  qed
qed

lemma str_in_unlines: "l \<in> set ls \<Longrightarrow> str_in l (unlines ls)"
proof -
  assume "l \<in> set ls"
  then have "l @ [newline] \<in> set (map (\<lambda>l. l @ [newline]) ls)" by simp
  then have "str_in (l @ [newline]) (unlines ls)"
    unfolding unlines_def by (rule str_in_concat)
  moreover have "str_in l (l @ [newline])"
    using str_in_append_middle [of l "[]" "[newline]"] by simp
  ultimately show ?thesis by (blast intro: str_in_trans)
qed

lemma str_in_unlines_append:
  "str_in p l \<Longrightarrow> l \<in> set ls \<Longrightarrow> str_in p (unlines ls)"
  by (blast intro: str_in_trans str_in_unlines)

lemma unlines_append [simp]: "unlines (xs @ ys) = unlines xs @ unlines ys"
  by (simp add: unlines_def)

subsection \<open>Facts: ASCII case mapping: \<open>str.lower\<close>, \<open>str.upper\<close>\<close>

lemma of_char_char_of_small: "(n::nat) < 256 \<Longrightarrow> of_char (char_of n :: char) = n"
  by (simp add: of_char_of)

lemma lower_char_idem [simp]: "lower_char (lower_char c) = lower_char c"
proof -
  have "of_char c < (256::nat)" by (rule nat_of_char_less_256)
  then show ?thesis by (auto simp: lower_char_def of_char_char_of_small)
qed

lemma lower_upper_char [simp]: "lower_char (upper_char c) = lower_char c"
proof -
  have b: "of_char c < (256::nat)" by (rule nat_of_char_less_256)
  show ?thesis
  proof (cases "(97::nat) \<le> of_char c \<and> of_char c \<le> (122::nat)")
    case True
    then have u: "upper_char c = char_of (of_char c - 32 :: nat)"
      by (simp add: upper_char_def)
    have e: "of_char (char_of (of_char c - (32::nat)) :: char) = (of_char c - 32 :: nat)"
      by (intro of_char_char_of_small) (use b in arith)
    have "lower_char (char_of (of_char c - 32 :: nat)) = char_of (of_char c - 32 + 32 :: nat)"
    proof -
      have "(65::nat) \<le> of_char c - 32 \<and> of_char c - 32 \<le> (90::nat)" using True by arith
      then show ?thesis by (simp add: lower_char_def e del: of_char_of)
    qed
    also have "\<dots> = c" using True by simp
    finally have "lower_char (upper_char c) = c" by (simp add: u)
    moreover from True have "lower_char c = c" by (simp add: lower_char_def)
    ultimately show ?thesis by simp
  next
    case False
    then have "upper_char c = c" unfolding upper_char_def by auto
    then show ?thesis by simp
  qed
qed

lemma py_lower_idem [simp]: "py_lower (py_lower s) = py_lower s"
  by (simp add: py_lower_def)

lemma py_lower_upper [simp]: "py_lower (py_upper s) = py_lower s"
  by (simp add: py_lower_def py_upper_def)

lemma py_lower_Nil_iff [simp]: "py_lower s = [] \<longleftrightarrow> s = []"
  by (simp add: py_lower_def)

lemma py_upper_Nil_iff [simp]: "py_upper s = [] \<longleftrightarrow> s = []"
  by (simp add: py_upper_def)

lemma length_py_lower [simp]: "length (py_lower s) = length s"
  by (simp add: py_lower_def)

lemma length_py_upper [simp]: "length (py_upper s) = length s"
  by (simp add: py_upper_def)

lemma py_lower_append [simp]: "py_lower (a @ b) = py_lower a @ py_lower b"
  by (simp add: py_lower_def)

lemma py_upper_append [simp]: "py_upper (a @ b) = py_upper a @ py_upper b"
  by (simp add: py_upper_def)

lemmas case_map_simps [text_simps] = py_lower_def py_upper_def lower_char_def upper_char_def

subsection \<open>Facts: The slice \<open>s[:n]\<close> on UTF-8 text\<close>

lemma ascii_Nil [simp]: "ascii []"
  by (simp add: ascii_def)

lemma ascii_Cons [simp]: "ascii (c # s) \<longleftrightarrow> of_char c < (128::nat) \<and> ascii s"
  by (simp add: ascii_def)

lemma ascii_append [simp]: "ascii (a @ b) \<longleftrightarrow> ascii a \<and> ascii b"
  by (simp add: ascii_def)

lemma ascii_replicate: "of_char c < (128::nat) \<Longrightarrow> ascii (replicate n c)"
  by (induction n) simp_all

lemma utf8_take_ascii: "ascii s \<Longrightarrow> utf8_take n s = take n s"
proof (induction n s rule: utf8_take.induct)
  case (1 n)
  then show ?case by simp
next
  case (2 n c cs)
  then have "\<not> utf8_cont c" and "ascii cs" by (auto simp: ascii_def utf8_cont_def)
  with 2 show ?case by (cases n) auto
qed

lemma utf8_take_prefix: "prefix (utf8_take n s) s"
  by (induction n s rule: utf8_take.induct) (auto split: nat.splits)

lemma utf8_take_append_ascii:
  "ascii a \<Longrightarrow> length a = n \<Longrightarrow> b = [] \<or> \<not> utf8_cont (hd b) \<Longrightarrow> utf8_take n (a @ b) = a"
proof (induction a arbitrary: n)
  case Nil
  then show ?case by (cases b) auto
next
  case (Cons c a)
  then obtain m where n: "n = Suc m" by (cases n) auto
  from Cons.prems have "\<not> utf8_cont c" and "ascii a"
    by (auto simp: ascii_def utf8_cont_def)
  with Cons.prems Cons.IH [of m] n show ?case by simp
qed

subsection \<open>Facts: \<open>str\<close> of an int\<close>

lemma nat_str_ne [simp]: "nat_str n \<noteq> []"
  by (subst nat_str.simps) simp

end
