(* ===== verification/PyValues.thy ===== *)
theory PyValues
  imports Prelude
begin

text \<open>
  The Python values the program handles.  A request body is JSON, so an attribute value
  is \<open>None\<close>, a bool, an int or a str (floats, lists and nested objects are not
  modelled).  The operations the program applies to them either return a value or raise:
  \<open>str(v)\<close> in an f-string, truth testing (\<open>not v\<close>), \<open>v.lower()\<close>,
  the slice \<open>v[:n]\<close>, \<open>len(v)\<close>.  A raised exception is a value of
  \<open>py_exc\<close> (Python's, or werkzeug's \<open>HTTPException\<close> raised by
  \<open>request.get_json()\<close>); its \<open>str(e)\<close> is \<open>exc_message\<close>.  A request's attribute
  mapping is a Python \<open>dict\<close>: an association list with distinct keys.
\<close>

datatype pyval = PyNone | PyBool bool | PyInt int | PyStr string

datatype py_exc =
    AttributeError string string  \<comment> \<open>type name, attribute name\<close>
  | TypeError string
  | OSError string
  | HTTPException nat string string  \<comment> \<open>werkzeug: code, name, description\<close>

subsection \<open>Type names and \<open>str(v)\<close>\<close>

fun py_type_name :: "pyval \<Rightarrow> string" where
  "py_type_name PyNone = ''NoneType''"
| "py_type_name (PyBool b) = ''bool''"
| "py_type_name (PyInt i) = ''int''"
| "py_type_name (PyStr s) = ''str''"

fun py_format :: "pyval \<Rightarrow> string" where
  "py_format PyNone = ''None''"
| "py_format (PyBool b) = (if b then ''True'' else ''False'')"
| "py_format (PyInt i) = int_str i"
| "py_format (PyStr s) = s"

text \<open>Truth testing: \<open>None\<close>, \<open>False\<close>, \<open>0\<close> and the empty string are false.\<close>

fun py_truthy :: "pyval \<Rightarrow> bool" where
  "py_truthy PyNone = False"
| "py_truthy (PyBool b) = b"
| "py_truthy (PyInt i) = (i \<noteq> 0)"
| "py_truthy (PyStr s) = (s \<noteq> [])"

fun py_is_str :: "pyval \<Rightarrow> bool" where
  "py_is_str (PyStr s) = True"
| "py_is_str v = False"

subsection \<open>Methods that raise on the wrong type\<close>

fun py_lower_val :: "pyval \<Rightarrow> py_exc + string" where
  "py_lower_val (PyStr s) = Inr (py_lower s)"
| "py_lower_val v = Inl (AttributeError (py_type_name v) ''lower'')"

fun py_slice_to :: "pyval \<Rightarrow> nat \<Rightarrow> py_exc + pyval" where
  "py_slice_to (PyStr s) n = Inr (PyStr (utf8_take n s))"
| "py_slice_to v n = Inl (TypeError (CHR 0x27 # py_type_name v @ CHR 0x27 # '' object is not subscriptable''))"

fun exc_message :: "py_exc \<Rightarrow> string" where
  "exc_message (AttributeError t a) =
     CHR 0x27 # t @ CHR 0x27 # '' object has no attribute '' @ CHR 0x27 # a @ [CHR 0x27]"
| "exc_message (TypeError m) = m"
| "exc_message (OSError m) = m"
| "exc_message (HTTPException c n d) = nat_str c @ '' '' @ n @ '': '' @ d"

subsection \<open>Dictionaries\<close>

type_synonym pydict = "(string \<times> pyval) list"

definition dict_wf :: "pydict \<Rightarrow> bool" where
  "dict_wf d \<longleftrightarrow> distinct (map fst d)"

text \<open>\<open>d.get(k, default)\<close>: the default is evaluated by the caller, before the call.\<close>

definition dict_get :: "pydict \<Rightarrow> string \<Rightarrow> pyval \<Rightarrow> pyval" where
  "dict_get d k dflt = (case map_of d k of Some v \<Rightarrow> v | None \<Rightarrow> dflt)"

definition dict_has :: "pydict \<Rightarrow> string \<Rightarrow> bool" where
  "dict_has d k \<longleftrightarrow> k \<in> fst ` set d"

subsection \<open>Facts: Type names and \<open>str(v)\<close>\<close>

lemma py_is_str_iff: "py_is_str v \<longleftrightarrow> (\<exists>s. v = PyStr s)"
  by (cases v) auto

subsection \<open>Facts: Methods that raise on the wrong type\<close>

lemma py_lower_val_Inr_iff [simp]: "py_lower_val v = Inr s \<longleftrightarrow> (\<exists>t. v = PyStr t \<and> s = py_lower t)"
  by (cases v) auto

lemma py_slice_to_str_iff: "(\<exists>r. py_slice_to v n = Inr r) \<longleftrightarrow> (\<exists>t. v = PyStr t)"
  by (cases v) auto

lemma py_format_str [simp]: "py_format (PyStr s) = s"
  by simp

subsection \<open>Facts: Dictionaries\<close>

lemma dict_get_absent [simp]: "\<not> dict_has d k \<Longrightarrow> dict_get d k dflt = dflt"
proof -
  assume "\<not> dict_has d k"
  then have "map_of d k = None" by (simp add: dict_has_def map_of_eq_None_iff)
  then show ?thesis by (simp add: dict_get_def)
qed

lemma dict_get_present: "dict_wf d \<Longrightarrow> (k, v) \<in> set d \<Longrightarrow> dict_get d k dflt = v"
  by (simp add: dict_get_def dict_wf_def)

lemma dict_get_Cons [text_simps]:
  "dict_get ((k', v) # d) k dflt = (if k' = k then v else dict_get d k dflt)"
  "dict_get [] k dflt = dflt"
  by (simp_all add: dict_get_def)

lemma dict_has_Cons [text_simps]:
  "dict_has ((k', v) # d) k = (k' = k \<or> dict_has d k)"
  "dict_has [] k = False"
  by (auto simp: dict_has_def)

lemma dict_get_all_str:
  "list_all (\<lambda>(k, v). py_is_str v) d \<Longrightarrow> py_is_str dflt \<Longrightarrow> py_is_str (dict_get d k dflt)"
  by (induction d) (auto simp: dict_get_Cons)

lemma dict_get_default_irrelevant: "dict_has d k \<Longrightarrow> dict_get d k a = dict_get d k b"
  by (auto simp: dict_has_def dict_get_def dest: weak_map_of_SomeI)

lemma dict_get_has: "dict_has d k \<Longrightarrow> \<exists>v. map_of d k = Some v \<and> dict_get d k dflt = v"
  by (auto simp: dict_has_def dict_get_def dest: weak_map_of_SomeI)

end
