(* ===== verification/Status.thy ===== *)
theory Status
  imports PyValues
begin

subsection \<open>The four styles of the code\<close>

text \<open>
  The status badge: \<open>ProfessionalCertificateGenerator.get_status_badge_style\<close>
  (src/app.py, lines 71--82) chooses the CSS of the badge from the free-text
  \<open>final_status\<close> by case-insensitive substring search.  The theory also states the
  specification's three-way classification \<open>classify_status\<close> (SUCCESS, FAILURE,
  UNKNOWN) as an abstract function and relates the two: on every non-empty string the
  code picks the style of the specified class; on the empty string (and on \<open>None\<close>,
  \<open>False\<close>, \<open>0\<close>) it picks a fourth, grey style the specification does not have;
  on any other non-string value it raises \<open>AttributeError\<close>.
\<close>

definition style_neutral :: string where
  "style_neutral = ''background: #6c757d; color: white;''"

definition style_success :: string where
  "style_success = ''background: linear-gradient(45deg, #28a745, #20c997); color: white; box-shadow: 0 4px 15px rgba(40, 167, 69, 0.4);''"

definition style_failure :: string where
  "style_failure = ''background: linear-gradient(45deg, #dc3545, #e74c3c); color: white; box-shadow: 0 4px 15px rgba(220, 53, 69, 0.4);''"

definition style_unknown :: string where
  "style_unknown = ''background: linear-gradient(45deg, #ffc107, #fd7e14); color: #212529; box-shadow: 0 4px 15px rgba(255, 193, 7, 0.4);''"

subsection \<open>The code\<close>

definition get_status_badge_style :: "pyval \<Rightarrow> py_exc + string" where
  "get_status_badge_style status =
     (if \<not> py_truthy status then Inr style_neutral
      else (case py_lower_val status of
              Inl e \<Rightarrow> Inl e
            | Inr status_lower \<Rightarrow>
                if str_in ''pass'' status_lower \<or> str_in ''success'' status_lower
                   \<or> str_in ''complete'' status_lower
                then Inr style_success
                else if str_in ''fail'' status_lower \<or> str_in ''error'' status_lower
                then Inr style_failure
                else Inr style_unknown))"

subsection \<open>The specification\<close>

datatype status_class = SUCCESS | FAILURE | UNKNOWN

definition success_tokens :: "string list" where
  "success_tokens = [''pass'', ''success'', ''complete'']"

definition failure_tokens :: "string list" where
  "failure_tokens = [''fail'', ''error'']"

text \<open>
  \<open>classify_status\<close> is the specification's function (spec section 4.1): absent or
  empty text is UNKNOWN, then the success vocabulary is searched before the failure
  vocabulary.  \<open>class_style\<close> is the specified one-to-one presentation of a class.
\<close>

definition classify_status :: "string option \<Rightarrow> status_class" where
  "classify_status t =
     (case t of
        None \<Rightarrow> UNKNOWN
      | Some s \<Rightarrow>
          (let l = py_lower s in
           if l = [] then UNKNOWN
           else if list_ex (\<lambda>w. str_in w l) success_tokens then SUCCESS
           else if list_ex (\<lambda>w. str_in w l) failure_tokens then FAILURE
           else UNKNOWN))"

fun class_style :: "status_class \<Rightarrow> string" where
  "class_style SUCCESS = style_success"
| "class_style FAILURE = style_failure"
| "class_style UNKNOWN = style_unknown"

subsection \<open>Facts: The four styles of the code\<close>

lemmas style_defs = style_neutral_def style_success_def style_failure_def style_unknown_def

subsection \<open>Basic facts\<close>

lemma styles_distinct:
  "style_neutral \<noteq> style_success" "style_neutral \<noteq> style_failure"
  "style_neutral \<noteq> style_unknown" "style_success \<noteq> style_failure"
  "style_success \<noteq> style_unknown" "style_failure \<noteq> style_unknown"
  by (simp_all add: style_defs)

lemma class_style_inj: "class_style a = class_style b \<longleftrightarrow> a = b"
  by (cases a; cases b) (simp_all add: styles_distinct styles_distinct [symmetric])

lemma class_style_not_neutral: "class_style c \<noteq> style_neutral"
  by (cases c) (simp_all add: styles_distinct [symmetric])

lemma badge_style_str_nonempty:
  "s \<noteq> [] \<Longrightarrow> get_status_badge_style (PyStr s) =
     (let l = py_lower s in
      Inr (if str_in ''pass'' l \<or> str_in ''success'' l \<or> str_in ''complete'' l then style_success
           else if str_in ''fail'' l \<or> str_in ''error'' l then style_failure
           else style_unknown))"
  by (simp add: get_status_badge_style_def Let_def)

lemma badge_style_falsy: "\<not> py_truthy v \<Longrightarrow> get_status_badge_style v = Inr style_neutral"
  by (simp add: get_status_badge_style_def)

lemma badge_style_lower_invariant:
  "get_status_badge_style (PyStr (py_lower s)) = get_status_badge_style (PyStr s)"
  by (simp add: get_status_badge_style_def)

lemma badge_style_upper_invariant:
  "get_status_badge_style (PyStr (py_upper s)) = get_status_badge_style (PyStr s)"
  by (simp add: get_status_badge_style_def)

lemma classify_status_Some:
  "classify_status (Some s) =
     (let l = py_lower s in
      if l = [] then UNKNOWN
      else if str_in ''pass'' l \<or> str_in ''success'' l \<or> str_in ''complete'' l then SUCCESS
      else if str_in ''fail'' l \<or> str_in ''error'' l then FAILURE
      else UNKNOWN)"
  by (simp add: classify_status_def success_tokens_def failure_tokens_def Let_def)

subsection \<open>Properties\<close>

text \<open>
  C1 (refinement).  On a string status the code implements the specified
  classification: the badge has the style of \<open>classify_status\<close>'s class, except
  for the empty string, which gets the grey style that no class has.
\<close>

theorem badge_style_refines_classify:
  "get_status_badge_style (PyStr s) =
     Inr (if s = [] then style_neutral else class_style (classify_status (Some s)))"
  by (simp add: badge_style_str_nonempty classify_status_Some Let_def get_status_badge_style_def)

text \<open>
  C5 (functional).  Precedence: a status whose lowercase form contains a word of the
  success vocabulary gets the success style, whatever failure words it also contains.
\<close>

theorem badge_style_success_first:
  "list_ex (\<lambda>w. str_in w (py_lower s)) success_tokens \<Longrightarrow>
     get_status_badge_style (PyStr s) = Inr style_success"
proof -
  assume h: "list_ex (\<lambda>w. str_in w (py_lower s)) success_tokens"
  then have "s \<noteq> []" by (auto simp: success_tokens_def str_in_code py_lower_def)
  with h show ?thesis by (simp add: badge_style_str_nonempty success_tokens_def)
qed

theorem badge_style_success_first_witness:
  "list_ex (\<lambda>w. str_in w (py_lower ''passed then failed'')) success_tokens
   \<and> get_status_badge_style (PyStr ''passed then failed'') = Inr style_success"
proof -
  have h: "list_ex (\<lambda>w. str_in w (py_lower ''passed then failed'')) success_tokens" by code_simp
  show ?thesis using h badge_style_success_first [OF h] by simp
qed

text \<open>
  C6 (error).  The badge raises exactly on a true value that is not a string
  (\<open>True\<close>, a non-zero int), with Python's \<open>AttributeError\<close> for \<open>lower\<close>.
\<close>

theorem badge_style_error_iff:
  "get_status_badge_style v = Inl e \<longleftrightarrow>
     py_truthy v \<and> \<not> py_is_str v \<and> e = AttributeError (py_type_name v) ''lower''"
  by (cases v) (auto simp: get_status_badge_style_def split: if_splits)

text \<open>
  C7 (functional).  The badge depends on the status only through its lowercase form:
  two statuses that agree up to case get the same style.
\<close>

theorem badge_style_case_insensitive:
  "py_lower s = py_lower t \<Longrightarrow> get_status_badge_style (PyStr s) = get_status_badge_style (PyStr t)"
proof -
  assume e: "py_lower s = py_lower t"
  then have "s = [] \<longleftrightarrow> t = []" by (metis py_lower_Nil_iff)
  with e show ?thesis by (simp add: get_status_badge_style_def)
qed

theorem badge_style_case_insensitive_witness:
  "py_lower ''PASSED'' = py_lower ''passed''
   \<and> get_status_badge_style (PyStr ''PASSED'') = get_status_badge_style (PyStr ''passed'')"
proof -
  have h: "py_lower ''PASSED'' = py_lower ''passed''" by code_simp
  show ?thesis using h badge_style_case_insensitive [OF h] by simp
qed


end
