(* ===== verification/Clock.thy ===== *)
theory Clock
  imports Prelude
begin

text \<open>
  Wall-clock time as the program reads it: \<open>datetime.now()\<close> is a value of the record
  \<open>datetime\<close> that the caller supplies (each call of \<open>now()\<close> in the code is a
  separate input, so two calls in one request may differ).  The three renderings the
  code uses are modelled: \<open>strftime('%Y-%m-%d %H:%M:%S')\<close> (src/app.py line 87),
  \<open>strftime('%Y%m%d_%H%M%S')\<close> (line 840) and \<open>isoformat()\<close> (lines 819, 885,
  895).  \<open>%Y\<close> prints the year without padding (glibc), \<open>isoformat\<close> pads it to
  four digits and adds microseconds only when they are not zero.
\<close>

record datetime =
  dt_year :: nat
  dt_month :: nat
  dt_day :: nat
  dt_hour :: nat
  dt_minute :: nat
  dt_second :: nat
  dt_micro :: nat

definition dt_valid :: "datetime \<Rightarrow> bool" where
  "dt_valid t \<longleftrightarrow> 1 \<le> dt_year t \<and> dt_year t \<le> 9999 \<and> 1 \<le> dt_month t \<and> dt_month t \<le> 12
     \<and> 1 \<le> dt_day t \<and> dt_day t \<le> 31 \<and> dt_hour t < 24 \<and> dt_minute t < 60
     \<and> dt_second t < 60 \<and> dt_micro t < 1000000"

definition zpad :: "nat \<Rightarrow> nat \<Rightarrow> string" where
  "zpad w n = replicate (w - length (nat_str n)) CHR ''0'' @ nat_str n"

definition strftime_date :: "datetime \<Rightarrow> string" where
  "strftime_date t = nat_str (dt_year t) @ ''-'' @ zpad 2 (dt_month t) @ ''-'' @ zpad 2 (dt_day t)"

definition strftime_full :: "datetime \<Rightarrow> string" where
  "strftime_full t = strftime_date t @ '' '' @ zpad 2 (dt_hour t) @ '':'' @ zpad 2 (dt_minute t)
     @ '':'' @ zpad 2 (dt_second t)"

definition strftime_compact :: "datetime \<Rightarrow> string" where
  "strftime_compact t = nat_str (dt_year t) @ zpad 2 (dt_month t) @ zpad 2 (dt_day t) @ ''_''
     @ zpad 2 (dt_hour t) @ zpad 2 (dt_minute t) @ zpad 2 (dt_second t)"

definition isoformat :: "datetime \<Rightarrow> string" where
  "isoformat t = zpad 4 (dt_year t) @ ''-'' @ zpad 2 (dt_month t) @ ''-'' @ zpad 2 (dt_day t)
     @ ''T'' @ zpad 2 (dt_hour t) @ '':'' @ zpad 2 (dt_minute t) @ '':'' @ zpad 2 (dt_second t)
     @ (if dt_micro t = 0 then [] else ''.'' @ zpad 6 (dt_micro t))"

definition digits :: string where
  "digits = ''0123456789''"

subsection \<open>Lengths of the decimal renderings\<close>

lemma nat_str_small: "n < 10 \<Longrightarrow> nat_str n = [char_of (48 + n)]"
  by (subst nat_str.simps) simp

lemma length_nat_str_step: "10 \<le> n \<Longrightarrow> length (nat_str n) = Suc (length (nat_str (n div 10)))"
  by (subst nat_str.simps) simp

lemma length_nat_str_le: "n < 10 ^ k \<Longrightarrow> 0 < k \<Longrightarrow> length (nat_str n) \<le> k"
proof (induction n arbitrary: k rule: nat_str.induct)
  case (1 n)
  show ?case
  proof (cases "n < 10")
    case True
    with "1.prems" show ?thesis by (simp add: nat_str_small)
  next
    case False
    from "1.prems" obtain j where k: "k = Suc j" by (cases k) auto
    with False "1.prems" have "n div 10 < 10 ^ j" by (simp add: less_mult_imp_div_less mult.commute)
    moreover from False "1.prems" k have "0 < j" by (cases j) auto
    ultimately have "length (nat_str (n div 10)) \<le> j" using "1.IH" False by simp
    with False k show ?thesis by (simp add: length_nat_str_step)
  qed
qed

lemma length_nat_str_ge: "10 ^ k \<le> n \<Longrightarrow> Suc k \<le> length (nat_str n)"
proof (induction n arbitrary: k rule: nat_str.induct)
  case (1 n)
  show ?case
  proof (cases k)
    case 0
    have "nat_str n \<noteq> []" by simp
    with 0 show ?thesis by (simp add: Suc_le_eq)
  next
    case (Suc j)
    have "(1::nat) \<le> 10 ^ j" by simp
    then have "(10::nat) \<le> 10 ^ Suc j" by simp
    with Suc "1.prems" have big: "10 \<le> n" by (metis order_trans)
    from Suc "1.prems" have "10 ^ j * 10 \<le> n" by (simp add: mult.commute)
    then have "10 ^ j \<le> n div 10" by (simp add: less_eq_div_iff_mult_less_eq)
    then have "Suc j \<le> length (nat_str (n div 10))" using "1.IH" big by simp
    with big Suc show ?thesis by (simp add: length_nat_str_step)
  qed
qed

lemma length_zpad: "n < 10 ^ w \<Longrightarrow> 0 < w \<Longrightarrow> length (zpad w n) = w"
  using length_nat_str_le [of n w] by (simp add: zpad_def)

lemma length_nat_str_4: "1000 \<le> n \<Longrightarrow> n \<le> 9999 \<Longrightarrow> length (nat_str n) = 4"
  using length_nat_str_le [of n 4] length_nat_str_ge [of 3 n] by simp

lemma length_strftime_date:
  "dt_valid t \<Longrightarrow> 1000 \<le> dt_year t \<Longrightarrow> length (strftime_date t) = 10"
  by (simp add: strftime_date_def dt_valid_def length_zpad length_nat_str_4)

lemma length_strftime_full:
  "dt_valid t \<Longrightarrow> 1000 \<le> dt_year t \<Longrightarrow> length (strftime_full t) = 19"
  by (simp add: strftime_full_def length_strftime_date dt_valid_def length_zpad)

subsection \<open>The date part of the default timestamp\<close>

lemma ascii_nat_str: "ascii (nat_str n)"
proof (induction n rule: nat_str.induct)
  case (1 n)
  have d: "of_char (char_of (48 + m) :: char) < (128::nat)" if "m < 10" for m :: nat
    using that by (simp add: of_char_char_of_small)
  show ?case
  proof (cases "n < 10")
    case True
    with d show ?thesis by (simp add: nat_str_small)
  next
    case False
    with "1.IH" d [of "n mod 10"] show ?thesis
      by (subst nat_str.simps) simp
  qed
qed

lemma ascii_zpad: "ascii (zpad w n)"
  by (simp add: zpad_def ascii_nat_str ascii_replicate)

lemma ascii_strftime_date: "ascii (strftime_date t)"
  by (simp add: strftime_date_def ascii_nat_str ascii_zpad)

text \<open>\<open>issue_date[:10]\<close> of the default \<open>issue_date\<close> is the date of the timestamp.\<close>

lemma utf8_take_strftime_full:
  "dt_valid t \<Longrightarrow> 1000 \<le> dt_year t \<Longrightarrow> utf8_take 10 (strftime_full t) = strftime_date t"
proof -
  assume v: "dt_valid t" and y: "1000 \<le> dt_year t"
  have "strftime_full t = strftime_date t @ CHR '' '' # (zpad 2 (dt_hour t) @ '':'' @ zpad 2 (dt_minute t)
     @ '':'' @ zpad 2 (dt_second t))"
    by (simp add: strftime_full_def)
  moreover have "\<not> utf8_cont CHR '' ''" by (simp add: utf8_cont_def)
  ultimately show ?thesis
    using utf8_take_append_ascii [OF ascii_strftime_date length_strftime_date [OF v y]] by simp
qed

subsection \<open>Digits and widths of the timestamps\<close>

lemma digit_chars: "\<forall>m < (10::nat). char_of (48 + m) \<in> set ''0123456789''"
  by code_simp

lemma digits_nat_str: "set (nat_str n) \<subseteq> set digits"
proof (induction n rule: nat_str.induct)
  case (1 n)
  have d: "char_of (48 + m) \<in> set digits" if "m < 10" for m :: nat
    using digit_chars that by (simp add: digits_def)
  show ?case
  proof (cases "n < 10")
    case True
    with d show ?thesis by (simp add: nat_str_small)
  next
    case False
    with "1.IH" d [of "n mod 10"] show ?thesis
      by (subst nat_str.simps) simp
  qed
qed

lemma digits_zpad: "set (zpad w n) \<subseteq> set digits"
  using digits_nat_str [of n] by (auto simp: zpad_def digits_def)

lemma strftime_compact_shape:
  "dt_valid t \<Longrightarrow> 1000 \<le> dt_year t \<Longrightarrow>
     \<exists>d1 d2. strftime_compact t = d1 @ ''_'' @ d2 \<and> length d1 = 8 \<and> length d2 = 6
       \<and> set (d1 @ d2) \<subseteq> set digits"
proof -
  assume v: "dt_valid t" and y: "1000 \<le> dt_year t"
  let ?d1 = "nat_str (dt_year t) @ zpad 2 (dt_month t) @ zpad 2 (dt_day t)"
  let ?d2 = "zpad 2 (dt_hour t) @ zpad 2 (dt_minute t) @ zpad 2 (dt_second t)"
  have "strftime_compact t = ?d1 @ ''_'' @ ?d2" by (simp add: strftime_compact_def)
  moreover have "length ?d1 = 8" "length ?d2 = 6"
    using v y by (simp_all add: dt_valid_def length_zpad length_nat_str_4)
  moreover have "set (?d1 @ ?d2) \<subseteq> set digits"
    using digits_nat_str digits_zpad by simp
  ultimately show ?thesis by blast
qed

text \<open>
  C36 (bounds).  \<open>isoformat()\<close>, the \<open>generated_at\<close> and \<open>timestamp\<close> fields,
  has 19 characters, or 26 when the microseconds are not zero, for every valid time.
\<close>

theorem isoformat_length:
  "dt_valid t \<Longrightarrow> length (isoformat t) = (if dt_micro t = 0 then 19 else 26)"
proof -
  assume v: "dt_valid t"
  then have "dt_year t < 10 ^ 4" by (simp add: dt_valid_def)
  with v show ?thesis by (simp add: isoformat_def dt_valid_def length_zpad)
qed

end
