(* ===== verification/Template.thy ===== *)
theory Template
  imports PyValues
begin

text \<open>
  The certificate document: the f-string of
  \<open>ProfessionalCertificateGenerator.create_certificate_html\<close> (src/app.py lines
  93--755), transcribed line by line.  Every line is its indentation and its text
  (\<open>ind n s\<close>); the f-string's doubled braces are single braces; the interpolated
  expressions are the fields of the record \<open>cert_ctx\<close>, the locals of
  \<open>create_certificate_html\<close> at the time the f-string is evaluated, already
  rendered with \<open>str()\<close>.  The source file's non-ASCII text (the icons) is kept as
  the UTF-8 bytes the pipeline writes.  The four data sections repeat one four-line
  data item per attribute; the theory writes that block once (\<open>data_item\<close>) with
  the table of labels and attribute keys of each section.  How the locals are computed,
  and which of them may raise, is in theory \<open>Composer\<close>.
\<close>

record cert_ctx =
  cc_cert_id :: string     \<comment> \<open>\<open>cert_id\<close>\<close>
  cc_issue_date :: string  \<comment> \<open>\<open>issue_date\<close>\<close>
  cc_status :: string      \<comment> \<open>\<open>final_status\<close>\<close>
  cc_style :: string       \<comment> \<open>\<open>status_badge_style\<close>\<close>
  cc_date10 :: pyval       \<comment> \<open>\<open>issue_date[:10]\<close>\<close>
  cc_link_id :: string     \<comment> \<open>\<open>cert_id.lower()\<close>\<close>
  cc_generated :: string   \<comment> \<open>\<open>current_time\<close>\<close>
  cc_data :: pydict        \<comment> \<open>\<open>data\<close>\<close>

text \<open>\<open>{data.get(key, default)}\<close> with a literal default.\<close>

definition field_or :: "cert_ctx \<Rightarrow> string \<Rightarrow> string \<Rightarrow> string" where
  "field_or ctx k d = py_format (dict_get (cc_data ctx) k (PyStr d))"

text \<open>\<open>{data.get(key, issue_date[:10])}\<close>, the signature dates.\<close>

definition sig_date :: "cert_ctx \<Rightarrow> string \<Rightarrow> string" where
  "sig_date ctx k = py_format (dict_get (cc_data ctx) k (cc_date10 ctx))"

subsection \<open>Icons\<close>

definition glyph_check :: string where
  "glyph_check = [CHR 0xE2, CHR 0x80, CHR 0x9A, CHR 0xC3, CHR 0xBA, CHR 0xC3, CHR 0xAC]"  \<comment> \<open>the text \<^verbatim>\<open>U+201A U+00FA U+00EC\<close> of lines 529 and 621\<close>

definition glyph_disk :: string where
  "glyph_disk = [CHR 0xEF, CHR 0xA3, CHR 0xBF, CHR 0xC3, CHR 0xBC, CHR 0xC3, CHR 0xAD, CHR 0xC3, CHR 0xA6]"  \<comment> \<open>line 537\<close>

definition glyph_cycle :: string where
  "glyph_cycle = [CHR 0xEF, CHR 0xA3, CHR 0xBF, CHR 0xC3, CHR 0xBC, CHR 0xC3, CHR 0xAE, CHR 0xC3, CHR 0x91]"  \<comment> \<open>line 579\<close>

definition glyph_clipboard :: string where
  "glyph_clipboard = [CHR 0xEF, CHR 0xA3, CHR 0xBF, CHR 0xC3, CHR 0xBC, CHR 0xC3, CHR 0xAC, CHR 0xC3, CHR 0xA3]"  \<comment> \<open>line 663\<close>

definition glyph_pen :: string where
  "glyph_pen = [CHR 0xE2, CHR 0x80, CHR 0x9A, CHR 0xC3, CHR 0xBA, CHR 0xC3, CHR 0xA7, CHR 0xC3, CHR 0x94, CHR 0xE2, CHR 0x88, CHR 0x8F, CHR 0xC3, CHR 0xA8]"  \<comment> \<open>line 719\<close>

subsection \<open>The head and the style sheet\<close>

text \<open>Document head and title (src/app.py lines 94--101).\<close>

definition html_head_lines :: "cert_ctx \<Rightarrow> string list" where
  \<open>html_head_lines ctx = [
    ind 8 ''<!DOCTYPE html>'',
    ind 8 ''<html lang="en">'',
    ind 8 ''<head>'',
    ind 12 ''<meta charset="UTF-8">'',
    ind 12 ''<meta name="viewport" content="width=device-width, initial-scale=1.0">'',
    ind 12 (''<title>Certificate of Authenticity - '' @ (cc_cert_id ctx) @ ''</title>''),
    ind 12 ''<style>'',
    ind 16 ''@import url(\'https://fonts.googleapis.com/css2?family=Playfair+Display:wght@400;600;700&family=Inter:wght@300;400;500;600;700&display=swap\');'']\<close>

text \<open>Style sheet: page frame, border, ornaments, watermark, content box (src/app.py lines 102--191).\<close>

definition css_frame_lines :: "string list" where
  \<open>css_frame_lines = [
    ind 16 [],
    ind 16 ''* {'',
    ind 20 ''margin: 0;'',
    ind 20 ''padding: 0;'',
    ind 20 ''box-sizing: border-box;'',
    ind 16 ''}'',
    ind 16 [],
    ind 16 ''body {'',
    ind 20 ''font-family: \'Inter\', sans-serif;'',
    ind 20 ''background: linear-gradient(135deg, #667eea 0%, #764ba2 100%);'',
    ind 20 ''color: #2c3e50;'',
    ind 20 ''line-height: 1.6;'',
    ind 20 ''min-height: 100vh;'',
    ind 20 ''padding: 0;'',
    ind 16 ''}'',
    ind 16 [],
    ind 16 ''.certificate-container {'',
    ind 20 ''max-width: 210mm;'',
    ind 20 ''margin: 0 auto;'',
    ind 20 ''background: #ffffff;'',
    ind 20 ''position: relative;'',
    ind 20 ''overflow: hidden;'',
    ind 16 ''}'',
    ind 16 [],
    ind 16 ''/* Decorative Elements */'',
    ind 16 ''.cert-border {'',
    ind 20 ''position: absolute;'',
    ind 20 ''top: 15px;'',
    ind 20 ''left: 15px;'',
    ind 20 ''right: 15px;'',
    ind 20 ''bottom: 15px;'',
    ind 20 ''border: 3px solid #c9a96e;'',
    ind 20 ''border-radius: 15px;'',
    ind 16 ''}'',
    ind 16 [],
    ind 16 ''.cert-border::before {'',
    ind 20 (''content: '' @ [CHR 0x27] @ [CHR 0x27] @ '';''),
    ind 20 ''position: absolute;'',
    ind 20 ''top: 10px;'',
    ind 20 ''left: 10px;'',
    ind 20 ''right: 10px;'',
    ind 20 ''bottom: 10px;'',
    ind 20 ''border: 1px solid #c9a96e;'',
    ind 20 ''border-radius: 10px;'',
    ind 16 ''}'',
    ind 16 [],
    ind 16 ''.corner-ornament {'',
    ind 20 ''position: absolute;'',
    ind 20 ''width: 60px;'',
    ind 20 ''height: 60px;'',
    ind 20 ''background: radial-gradient(circle, #c9a96e 0%, #8b7355 100%);'',
    ind 20 ''transform: rotate(45deg);'',
    ind 16 ''}'',
    ind 16 [],
    ind 16 ''.corner-ornament.top-left { top: 25px; left: 25px; }'',
    ind 16 ''.corner-ornament.top-right { top: 25px; right: 25px; }'',
    ind 16 ''.corner-ornament.bottom-left { bottom: 25px; left: 25px; }'',
    ind 16 ''.corner-ornament.bottom-right { bottom: 25px; right: 25px; }'',
    ind 16 [],
    ind 16 ''.corner-ornament::before {'',
    ind 20 (''content: '' @ [CHR 0x27] @ [CHR 0x27] @ '';''),
    ind 20 ''position: absolute;'',
    ind 20 ''top: 50%;'',
    ind 20 ''left: 50%;'',
    ind 20 ''width: 30px;'',
    ind 20 ''height: 30px;'',
    ind 20 ''background: #fff;'',
    ind 20 ''transform: translate(-50%, -50%);'',
    ind 20 ''border-radius: 50%;'',
    ind 16 ''}'',
    ind 16 [],
    ind 16 ''.watermark {'',
    ind 20 ''position: absolute;'',
    ind 20 ''top: 50%;'',
    ind 20 ''left: 50%;'',
    ind 20 ''transform: translate(-50%, -50%) rotate(-45deg);'',
    ind 20 ''font-size: 150px;'',
    ind 20 ''font-weight: 100;'',
    ind 20 ''color: rgba(201, 169, 110, 0.05);'',
    ind 20 ''z-index: 1;'',
    ind 20 ''font-family: \'Playfair Display\', serif;'',
    ind 20 ''letter-spacing: 10px;'',
    ind 16 ''}'',
    ind 16 [],
    ind 16 ''.content {'',
    ind 20 ''position: relative;'',
    ind 20 ''z-index: 2;'',
    ind 20 ''padding: 60px 50px 40px;'',
    ind 16 ''}'',
    ind 16 []]\<close>

text \<open>Style sheet: header, title, info bar (src/app.py lines 192--273).\<close>

definition css_header_lines :: "string list" where
  \<open>css_header_lines = [
    ind 16 ''/* Header Section */'',
    ind 16 ''.header {'',
    ind 20 ''text-align: center;'',
    ind 20 ''margin-bottom: 40px;'',
    ind 16 ''}'',
    ind 16 [],
    ind 16 ''.company-logo {'',
    ind 20 ''width: 120px;'',
    ind 20 ''height: 120px;'',
    ind 20 ''margin: 0 auto 20px;'',
    ind 20 ''background: linear-gradient(135deg, #667eea 0%, #764ba2 100%);'',
    ind 20 ''border-radius: 50%;'',
    ind 20 ''display: flex;'',
    ind 20 ''align-items: center;'',
    ind 20 ''justify-content: center;'',
    ind 20 ''color: white;'',
    ind 20 ''font-size: 48px;'',
    ind 20 ''font-weight: bold;'',
    ind 20 ''box-shadow: 0 10px 30px rgba(0,0,0,0.1);'',
    ind 16 ''}'',
    ind 16 [],
    ind 16 ''.cert-title {'',
    ind 20 ''font-family: \'Playfair Display\', serif;'',
    ind 20 ''font-size: 42px;'',
    ind 20 ''font-weight: 700;'',
    ind 20 ''color: #2c3e50;'',
    ind 20 ''margin-bottom: 8px;'',
    ind 20 ''text-shadow: 1px 1px 2px rgba(0,0,0,0.1);'',
    ind 16 ''}'',
    ind 16 [],
    ind 16 ''.cert-subtitle {'',
    ind 20 ''font-size: 16px;'',
    ind 20 ''color: #7f8c8d;'',
    ind 20 ''font-weight: 300;'',
    ind 20 ''letter-spacing: 1px;'',
    ind 20 ''text-transform: uppercase;'',
    ind 20 ''margin-bottom: 30px;'',
    ind 20 ''line-height: 1.4;'',
    ind 20 ''word-wrap: break-word;'',
    ind 20 ''max-width: 100%;'',
    ind 20 ''padding: 0 20px;'',
    ind 16 ''}'',
    ind 16 [],
    ind 16 ''/* Certificate Info Bar */'',
    ind 16 ''.cert-info-bar {'',
    ind 20 ''background: linear-gradient(135deg, #f8f9fa 0%, #e9ecef 100%);'',
    ind 20 ''border-radius: 15px;'',
    ind 20 ''padding: 25px;'',
    ind 20 ''margin-bottom: 40px;'',
    ind 20 ''box-shadow: inset 0 2px 10px rgba(0,0,0,0.05);'',
    ind 20 ''border: 1px solid #dee2e6;'',
    ind 16 ''}'',
    ind 16 [],
    ind 16 ''.cert-info-grid {'',
    ind 20 ''display: grid;'',
    ind 20 ''grid-template-columns: repeat(2, 1fr);'',
    ind 20 ''gap: 20px;'',
    ind 16 ''}'',
    ind 16 [],
    ind 16 ''.info-item {'',
    ind 20 ''display: flex;'',
    ind 20 ''align-items: center;'',
    ind 20 ''justify-content: space-between;'',
    ind 20 ''padding: 15px 20px;'',
    ind 20 ''background: white;'',
    ind 20 ''border-radius: 10px;'',
    ind 20 ''box-shadow: 0 2px 8px rgba(0,0,0,0.08);'',
    ind 20 ''border-left: 4px solid #667eea;'',
    ind 16 ''}'',
    ind 16 [],
    ind 16 ''.info-label {'',
    ind 20 ''font-weight: 600;'',
    ind 20 ''color: #495057;'',
    ind 20 ''font-size: 14px;'',
    ind 16 ''}'',
    ind 16 [],
    ind 16 ''.info-value {'',
    ind 20 ''font-weight: 700;'',
    ind 20 ''color: #212529;'',
    ind 20 ''font-size: 16px;'',
    ind 16 ''}'',
    ind 16 []]\<close>

text \<open>Style sheet: the status badge, whose rule ends with the chosen badge style (src/app.py lines 274--291).\<close>

definition css_badge_lines :: "cert_ctx \<Rightarrow> string list" where
  \<open>css_badge_lines ctx = [
    ind 16 ''/* Status Badge */'',
    ind 16 ''.status-badge {'',
    ind 20 ''display: inline-block;'',
    ind 20 ''padding: 8px 20px;'',
    ind 20 ''border-radius: 25px;'',
    ind 20 ''font-size: 14px;'',
    ind 20 ''font-weight: 700;'',
    ind 20 ''text-transform: uppercase;'',
    ind 20 ''letter-spacing: 1px;'',
    ind 20 (cc_style ctx),
    ind 16 ''}'',
    ind 16 [],
    ind 16 ''.status-checkmark {'',
    ind 20 ''color: #28a745;'',
    ind 20 ''font-weight: bold;'',
    ind 20 ''font-size: 16px;'',
    ind 20 ''margin-right: 5px;'',
    ind 16 ''}'']\<close>

text \<open>Style sheet: data sections and the certification statement (src/app.py lines 292--397).\<close>

definition css_data_lines :: "string list" where
  \<open>css_data_lines = [
    ind 16 [],
    ind 16 ''/* Data Sections */'',
    ind 16 ''.data-section {'',
    ind 20 ''margin-bottom: 35px;'',
    ind 20 ''page-break-inside: avoid;'',
    ind 16 ''}'',
    ind 16 [],
    ind 16 ''.section-header {'',
    ind 20 ''display: flex;'',
    ind 20 ''align-items: center;'',
    ind 20 ''margin-bottom: 20px;'',
    ind 20 ''padding: 15px 0;'',
    ind 20 ''border-bottom: 2px solid #e9ecef;'',
    ind 16 ''}'',
    ind 16 [],
    ind 16 ''.section-icon {'',
    ind 20 ''width: 40px;'',
    ind 20 ''height: 40px;'',
    ind 20 ''border-radius: 50%;'',
    ind 20 ''display: flex;'',
    ind 20 ''align-items: center;'',
    ind 20 ''justify-content: center;'',
    ind 20 ''color: white;'',
    ind 20 ''font-weight: bold;'',
    ind 20 ''margin-right: 15px;'',
    ind 20 ''font-size: 18px;'',
    ind 16 ''}'',
    ind 16 [],
    ind 16 ''.device-icon { background: linear-gradient(135deg, #28a745, #20c997); }'',
    ind 16 ''.process-icon { background: linear-gradient(135deg, #fd7e14, #f39c12); }'',
    ind 16 ''.verification-icon { background: linear-gradient(135deg, #dc3545, #e74c3c); }'',
    ind 16 ''.additional-icon { background: linear-gradient(135deg, #6f42c1, #8e44ad); }'',
    ind 16 [],
    ind 16 ''.section-title {'',
    ind 20 ''font-family: \'Playfair Display\', serif;'',
    ind 20 ''font-size: 24px;'',
    ind 20 ''font-weight: 600;'',
    ind 20 ''color: #2c3e50;'',
    ind 16 ''}'',
    ind 16 [],
    ind 16 ''.data-grid {'',
    ind 20 ''display: grid;'',
    ind 20 ''grid-template-columns: repeat(2, 1fr);'',
    ind 20 ''gap: 15px;'',
    ind 16 ''}'',
    ind 16 [],
    ind 16 ''.data-item {'',
    ind 20 ''background: #f8f9fa;'',
    ind 20 ''padding: 20px;'',
    ind 20 ''border-radius: 12px;'',
    ind 20 ''border: 1px solid #e9ecef;'',
    ind 20 ''transition: all 0.3s ease;'',
    ind 16 ''}'',
    ind 16 [],
    ind 16 ''.data-item:hover {'',
    ind 20 ''background: #fff;'',
    ind 20 ''box-shadow: 0 5px 15px rgba(0,0,0,0.1);'',
    ind 20 ''transform: translateY(-2px);'',
    ind 16 ''}'',
    ind 16 [],
    ind 16 ''.data-label {'',
    ind 20 ''font-size: 12px;'',
    ind 20 ''font-weight: 600;'',
    ind 20 ''color: #6c757d;'',
    ind 20 ''text-transform: uppercase;'',
    ind 20 ''letter-spacing: 1px;'',
    ind 20 ''margin-bottom: 8px;'',
    ind 16 ''}'',
    ind 16 [],
    ind 16 ''.data-value {'',
    ind 20 ''font-size: 16px;'',
    ind 20 ''font-weight: 500;'',
    ind 20 ''color: #212529;'',
    ind 20 ''word-break: break-all;'',
    ind 16 ''}'',
    ind 16 [],
    ind 16 ''/* Certification Statement */'',
    ind 16 ''.certification-statement {'',
    ind 20 ''background: linear-gradient(135deg, #e8f5e8 0%, #f0f8f0 100%);'',
    ind 20 ''border: 2px solid #28a745;'',
    ind 20 ''border-radius: 15px;'',
    ind 20 ''padding: 35px;'',
    ind 20 ''margin: 60px 0 40px 0;'',
    ind 20 ''text-align: center;'',
    ind 20 ''position: relative;'',
    ind 20 ''box-shadow: 0 8px 25px rgba(40, 167, 69, 0.15);'',
    ind 20 ''page-break-before: always;'',
    ind 20 ''page-break-after: always;'',
    ind 16 ''}'',
    ind 16 [],
    ind 16 [],
    ind 16 ''.statement-title {'',
    ind 20 ''font-family: \'Playfair Display\', serif;'',
    ind 20 ''font-size: 28px;'',
    ind 20 ''font-weight: 700;'',
    ind 20 ''color: #155724;'',
    ind 20 ''margin-bottom: 20px;'',
    ind 16 ''}'',
    ind 16 [],
    ind 16 ''.statement-text {'',
    ind 20 ''font-size: 16px;'',
    ind 20 ''color: #155724;'',
    ind 20 ''line-height: 1.8;'',
    ind 20 ''margin-bottom: 15px;'',
    ind 16 ''}'',
    ind 16 []]\<close>

text \<open>Style sheet: signatures, footer, print rules (src/app.py lines 398--493).\<close>

definition css_sign_lines :: "string list" where
  \<open>css_sign_lines = [
    ind 16 ''/* Signature Section */'',
    ind 16 ''.signature-section {'',
    ind 20 ''margin-top: 50px;'',
    ind 20 ''page-break-inside: avoid;'',
    ind 20 ''page-break-before: always;'',
    ind 16 ''}'',
    ind 16 [],
    ind 16 ''.signature-grid {'',
    ind 20 ''display: grid;'',
    ind 20 ''grid-template-columns: repeat(2, 1fr);'',
    ind 20 ''gap: 60px;'',
    ind 20 ''margin-top: 40px;'',
    ind 16 ''}'',
    ind 16 [],
    ind 16 ''.signature-box {'',
    ind 20 ''text-align: center;'',
    ind 20 ''position: relative;'',
    ind 16 ''}'',
    ind 16 [],
    ind 16 ''.signature-line {'',
    ind 20 ''height: 2px;'',
    ind 20 ''background: linear-gradient(to right, #667eea, #764ba2);'',
    ind 20 ''margin: 50px 20px 15px;'',
    ind 20 ''border-radius: 2px;'',
    ind 16 ''}'',
    ind 16 [],
    ind 16 ''.signature-role {'',
    ind 20 ''font-weight: 700;'',
    ind 20 ''font-size: 16px;'',
    ind 20 ''color: #2c3e50;'',
    ind 20 ''margin-bottom: 8px;'',
    ind 16 ''}'',
    ind 16 [],
    ind 16 ''.signature-name {'',
    ind 20 ''font-size: 18px;'',
    ind 20 ''color: #495057;'',
    ind 20 ''margin-bottom: 5px;'',
    ind 16 ''}'',
    ind 16 [],
    ind 16 ''.signature-date {'',
    ind 20 ''font-size: 12px;'',
    ind 20 ''color: #6c757d;'',
    ind 16 ''}'',
    ind 16 [],
    ind 16 ''/* Footer */'',
    ind 16 ''.certificate-footer {'',
    ind 20 ''margin-top: 40px;'',
    ind 20 ''padding-top: 30px;'',
    ind 20 ''border-top: 1px solid #dee2e6;'',
    ind 20 ''text-align: center;'',
    ind 16 ''}'',
    ind 16 [],
    ind 16 ''.footer-text {'',
    ind 20 ''font-size: 11px;'',
    ind 20 ''color: #6c757d;'',
    ind 20 ''margin-bottom: 10px;'',
    ind 16 ''}'',
    ind 16 [],
    ind 16 ''.qr-code {'',
    ind 20 ''width: 80px;'',
    ind 20 ''height: 80px;'',
    ind 20 ''margin: 20px auto 10px;'',
    ind 20 ''background: linear-gradient(135deg, #667eea, #764ba2);'',
    ind 20 ''border-radius: 10px;'',
    ind 20 ''display: flex;'',
    ind 20 ''align-items: center;'',
    ind 20 ''justify-content: center;'',
    ind 20 ''color: white;'',
    ind 20 ''font-size: 12px;'',
    ind 20 ''font-weight: bold;'',
    ind 16 ''}'',
    ind 16 [],
    ind 16 ''/* Print Styles */'',
    ind 16 ''@media print {'',
    ind 20 ''body { background: none; }'',
    ind 20 ''.certificate-container { box-shadow: none; }'',
    ind 20 ''.certification-statement { '',
    ind 24 ''page-break-before: always; '',
    ind 24 ''page-break-after: always;'',
    ind 24 ''margin-top: 80px;'',
    ind 20 ''}'',
    ind 20 ''.signature-section { '',
    ind 24 ''page-break-before: always; '',
    ind 24 ''margin-top: 80px;'',
    ind 20 ''}'',
    ind 16 ''}'',
    ind 16 [],
    ind 16 ''/* Page Break Utilities for wkhtmltopdf */'',
    ind 16 ''.page-break-before {'',
    ind 20 ''page-break-before: always;'',
    ind 16 ''}'',
    ind 16 [],
    ind 16 ''.page-break-inside-avoid {'',
    ind 20 ''page-break-inside: avoid;'',
    ind 16 ''}'',
    ind 12 ''</style>'']\<close>

subsection \<open>The body\<close>

text \<open>Body: decorations and the header (src/app.py lines 494--511).\<close>

definition body_header_lines :: "string list" where
  \<open>body_header_lines = [
    ind 8 ''</head>'',
    ind 8 ''<body>'',
    ind 12 ''<div class="certificate-container">'',
    ind 16 ''<div class="cert-border"></div>'',
    ind 16 ''<div class="corner-ornament top-left"></div>'',
    ind 16 ''<div class="corner-ornament top-right"></div>'',
    ind 16 ''<div class="corner-ornament bottom-left"></div>'',
    ind 16 ''<div class="corner-ornament bottom-right"></div>'',
    ind 16 ''<div class="watermark">CERTIFIED</div>'',
    ind 16 [],
    ind 16 ''<div class="content">'',
    ind 20 ''<!-- Header -->'',
    ind 20 ''<div class="header">'',
    ind 24 ''<div class="company-logo">DS</div>'',
    ind 24 ''<h1 class="cert-title">Certificate of Authenticity</h1>'',
    ind 24 ''<p class="cert-subtitle">Data Sanitization & Security Verification</p>'',
    ind 20 ''</div>'',
    ind 20 []]\<close>

text \<open>Body: the certificate information bar (src/app.py lines 512--533).\<close>

definition info_bar_lines :: "cert_ctx \<Rightarrow> string list" where
  \<open>info_bar_lines ctx = [
    ind 20 ''<!-- Certificate Info Bar -->'',
    ind 20 ''<div class="cert-info-bar">'',
    ind 24 ''<div class="cert-info-grid">'',
    ind 28 ''<div class="info-item">'',
    ind 32 ''<span class="info-label">Certificate ID</span>'',
    ind 32 (''<span class="info-value">'' @ (cc_cert_id ctx) @ ''</span>''),
    ind 28 ''</div>'',
    ind 28 ''<div class="info-item">'',
    ind 32 ''<span class="info-label">Issue Date</span>'',
    ind 32 (''<span class="info-value">'' @ (cc_issue_date ctx) @ ''</span>''),
    ind 28 ''</div>'',
    ind 28 ''<div class="info-item">'',
    ind 32 ''<span class="info-label">Technician</span>'',
    ind 32 (''<span class="info-value">'' @ (field_or ctx ''technician_name'' ''N/A'') @ ''</span>''),
    ind 28 ''</div>'',
    ind 28 ''<div class="info-item">'',
    ind 32 ''<span class="info-label">Status</span>'',
    ind 32 (''<span class="status-badge"><span class="status-checkmark">'' @ glyph_check @ ''</span>'' @ (cc_status ctx) @ ''</span>''),
    ind 28 ''</div>'',
    ind 24 ''</div>'',
    ind 20 ''</div>'',
    ind 20 []]\<close>

subsection \<open>The data sections\<close>

text \<open>
  One data item (for instance src/app.py lines 541--544): the label, then the value of
  the attribute, \<open>N/A\<close> when it is absent.
\<close>

definition data_item :: "nat \<Rightarrow> string \<Rightarrow> string \<Rightarrow> string list" where
  \<open>data_item n label v =
     [ind n ''<div class="data-item">'',
      ind (n + 4) (''<div class="data-label">'' @ label @ ''</div>''),
      ind (n + 4) (''<div class="data-value">'' @ v @ ''</div>''),
      ind n ''</div>'']\<close>

text \<open>The opening lines of a data section (for instance lines 534--539).\<close>

definition section_head :: "string \<Rightarrow> string \<Rightarrow> string \<Rightarrow> string \<Rightarrow> string list" where
  \<open>section_head comment icon_class glyph title =
     [ind 20 (''<!-- '' @ comment @ '' -->''),
      ind 20 ''<div class="data-section">'',
      ind 24 ''<div class="section-header">'',
      ind 28 (''<div class="section-icon '' @ icon_class @ ''">'' @ glyph @ ''</div>''),
      ind 28 (''<h2 class="section-title">'' @ title @ ''</h2>''),
      ind 24 ''</div>'']\<close>

text \<open>The grid of data items (for instance lines 540--573).\<close>

definition data_grid :: "cert_ctx \<Rightarrow> (string \<times> string) list \<Rightarrow> string list" where
  \<open>data_grid ctx items =
     [ind 24 ''<div class="data-grid">'']
     @ concat (map (\<lambda>(label, key). data_item 28 label (field_or ctx key ''N/A'')) items)
     @ [ind 24 ''</div>'']\<close>

text \<open>Labels and attribute keys of the four sections, in the order of the source.\<close>

definition device_fields :: "(string \<times> string) list" where
  "device_fields =
     [(''Device Type'', ''device_type''), (''Manufacturer'', ''manufacturer''),
      (''Model'', ''model''), (''Serial Number'', ''serial_number''),
      (''Asset Tag'', ''asset_tag''), (''Capacity'', ''capacity''),
      (''Interface'', ''interface''), (''Firmware Version'', ''firmware_version'')]"

definition process_fields :: "(string \<times> string) list" where
  "process_fields =
     [(''Method Used'', ''sanitization_method''), (''Standard Compliance'', ''standard_compliance''),
      (''Number of Passes'', ''number_of_passes''), (''Algorithm'', ''algorithm''),
      (''Start Time'', ''start_time''), (''Duration'', ''duration''),
      (''Software Used'', ''software_used''), (''Software Version'', ''software_version'')]"

definition verification_fields :: "(string \<times> string) list" where
  "verification_fields =
     [(''Pre-wipe Status'', ''pre_wipe_verification''),
      (''Post-wipe Status'', ''post_wipe_verification''),
      (''Verification Method'', ''verification_method''),
      (''Sectors Processed'', ''sectors_processed''), (''Data Remnants'', ''data_remnants''),
      (''OS Installation'', ''os_installation_status''), (''OS Version'', ''os_version''),
      (''Boot Test'', ''boot_test_result'')]"

definition additional_fields :: "(string \<times> string) list" where
  "additional_fields =
     [(''Customer Name'', ''customer_name''), (''Work Order'', ''work_order''),
      (''Location'', ''location''), (''Witness'', ''witness_name''),
      (''Temperature'', ''temperature''), (''Humidity'', ''humidity'')]"

definition device_section_lines :: "cert_ctx \<Rightarrow> string list" where
  "device_section_lines ctx =
     section_head ''Device Information'' ''device-icon'' glyph_disk ''Device Information''
     @ data_grid ctx device_fields @ [ind 20 ''</div>'', ind 20 []]"

definition process_section_lines :: "cert_ctx \<Rightarrow> string list" where
  "process_section_lines ctx =
     section_head ''Sanitization Process'' ''process-icon'' glyph_cycle ''Sanitization Process''
     @ data_grid ctx process_fields @ [ind 20 ''</div>'', ind 20 []]"

definition verification_section_lines :: "cert_ctx \<Rightarrow> string list" where
  "verification_section_lines ctx =
     section_head ''Verification Results'' ''verification-icon'' glyph_check ''Verification Results''
     @ data_grid ctx verification_fields @ [ind 20 ''</div>'', ind 20 []]"

text \<open>The last section ends with the full-width notes item (lines 692--697).\<close>

definition additional_section_lines :: "cert_ctx \<Rightarrow> string list" where
  \<open>additional_section_lines ctx =
     section_head ''Additional Information'' ''additional-icon'' glyph_clipboard ''Additional Information''
     @ data_grid ctx additional_fields
     @ [ind 24 [],
        ind 24 ''<div class="data-item" style="grid-column: 1 / -1; margin-top: 15px;">'',
        ind 28 ''<div class="data-label">Notes</div>'',
        ind 28 (''<div class="data-value">'' @ field_or ctx ''notes'' ''N/A'' @ ''</div>''),
        ind 24 ''</div>'', ind 20 ''</div>'', ind 20 []]\<close>

text \<open>Body: the certification statement, printed for every certificate (src/app.py lines 699--715).\<close>

definition statement_lines :: "string list" where
  \<open>statement_lines = [
    ind 20 ''<!-- Certification Statement -->'',
    ind 20 ''<div class="certification-statement">'',
    ind 24 ''<h3 class="statement-title">Official Certification</h3>'',
    ind 24 ''<p class="statement-text">'',
    ind 28 ''This certificate verifies that the above-mentioned storage device has undergone comprehensive '',
    ind 28 ''data sanitization procedures in full compliance with industry standards and regulatory requirements.'',
    ind 24 ''</p>'',
    ind 24 ''<p class="statement-text">'',
    ind 28 ''All confidential data has been permanently destroyed using cryptographically secure methods, '',
    ind 28 ''rendering any previously stored information completely irrecoverable through any known forensic techniques.'',
    ind 24 ''</p>'',
    ind 24 ''<p class="statement-text">'',
    ind 28 ''<strong>This certification guarantees the complete sanitization of the specified device and '',
    ind 28 ''confirms its readiness for secure redeployment or disposal.</strong>'',
    ind 24 ''</p>'',
    ind 20 ''</div>'',
    ind 20 []]\<close>

text \<open>Body: the signature block (src/app.py lines 716--737).\<close>

definition signature_lines :: "cert_ctx \<Rightarrow> string list" where
  \<open>signature_lines ctx = [
    ind 20 ''<!-- Signatures -->'',
    ind 20 ''<div class="signature-section">'',
    ind 24 ''<div class="section-header">'',
    ind 28 (''<div class="section-icon" style="background: linear-gradient(135deg, #17a2b8, #138496);">'' @ glyph_pen @ ''</div>''),
    ind 28 ''<h2 class="section-title">Authorization</h2>'',
    ind 24 ''</div>'',
    ind 24 ''<div class="signature-grid">'',
    ind 28 ''<div class="signature-box">'',
    ind 32 ''<div class="signature-role">Certified Technician</div>'',
    ind 32 ''<div class="signature-line"></div>'',
    ind 32 (''<div class="signature-name">'' @ (field_or ctx ''technician_name'' ''John Smith'') @ ''</div>''),
    ind 32 (''<div class="signature-date">Date: '' @ (sig_date ctx ''technician_date'') @ ''</div>''),
    ind 28 ''</div>'',
    ind 28 ''<div class="signature-box">'',
    ind 32 ''<div class="signature-role">Quality Supervisor</div>'',
    ind 32 ''<div class="signature-line"></div>'',
    ind 32 (''<div class="signature-name">'' @ (field_or ctx ''supervisor_name'' ''Jane Doe'') @ ''</div>''),
    ind 32 (''<div class="signature-date">Date: '' @ (sig_date ctx ''supervisor_date'') @ ''</div>''),
    ind 28 ''</div>'',
    ind 24 ''</div>'',
    ind 20 ''</div>'',
    ind 20 []]\<close>

text \<open>Body: the footer with the QR placeholder and the verification link (src/app.py lines 738--754).\<close>

definition footer_lines :: "cert_ctx \<Rightarrow> string list" where
  \<open>footer_lines ctx = [
    ind 20 ''<!-- Footer -->'',
    ind 20 ''<div class="certificate-footer">'',
    ind 24 ''<div class="qr-code">'',
    ind 28 ''QR CODE<br>'',
    ind 28 (cc_cert_id ctx),
    ind 24 ''</div>'',
    ind 24 ''<p class="footer-text">'',
    ind 28 ''This certificate contains sensitive security information. Handle in accordance with data protection policies.'',
    ind 24 ''</p>'',
    ind 24 ''<p class="footer-text">'',
    ind 28 (''Generated: '' @ (cc_generated ctx) @ '' | Document ID: '' @ (cc_cert_id ctx) @ '' | Verification: secure-verify.com/'' @ (cc_link_id ctx)),
    ind 24 ''</p>'',
    ind 20 ''</div>'',
    ind 16 ''</div>'',
    ind 12 ''</div>'',
    ind 8 ''</body>'',
    ind 8 ''</html>'']\<close>

subsection \<open>The whole document\<close>

definition cert_lines :: "cert_ctx \<Rightarrow> string list" where
  "cert_lines ctx =
     html_head_lines ctx @ css_frame_lines @ css_header_lines @ css_badge_lines ctx
     @ css_data_lines @ css_sign_lines @ body_header_lines @ info_bar_lines ctx
     @ device_section_lines ctx @ process_section_lines ctx @ verification_section_lines ctx
     @ additional_section_lines ctx @ statement_lines @ signature_lines ctx @ footer_lines ctx"

text \<open>
  The value of the f-string: it opens with the newline after \<open>f"""\<close> and closes
  with the eight spaces before the closing quotes.
\<close>

definition render_certificate :: "cert_ctx \<Rightarrow> string" where
  "render_certificate ctx = newline # unlines (cert_lines ctx) @ replicate 8 CHR '' ''"

subsection \<open>Blocks of lines that appear in the document\<close>

definition all_data_fields :: "(string \<times> string) list" where
  "all_data_fields = device_fields @ process_fields @ verification_fields @ additional_fields"

subsection \<open>Facts: The whole document\<close>

lemma str_in_render_line: "l \<in> set (cert_lines ctx) \<Longrightarrow> str_in l (render_certificate ctx)"
proof -
  assume "l \<in> set (cert_lines ctx)"
  then have "str_in l (unlines (cert_lines ctx))" by (rule str_in_unlines)
  then have "str_in l ([newline] @ (unlines (cert_lines ctx) @ replicate 8 CHR '' ''))"
    by (intro str_in_append_left str_in_append_right)
  then show ?thesis by (simp add: render_certificate_def)
qed

lemma str_in_render: "str_in p l \<Longrightarrow> l \<in> set (cert_lines ctx) \<Longrightarrow> str_in p (render_certificate ctx)"
  by (blast intro: str_in_trans str_in_render_line)

subsection \<open>Facts: Blocks of lines that appear in the document\<close>

lemma sublist_skip [intro]: "sublist xs ys \<Longrightarrow> sublist xs (zs @ ys)"
  by (metis sublist_append_leftI sublist_order.order.trans)

lemma sublist_here [intro]: "sublist xs (xs @ ys)"
  by simp

lemma sublist_mid: "sublist xs ys \<Longrightarrow> sublist xs (as @ ys @ bs)"
  by (metis sublist_appendI sublist_order.order.trans)

lemma sublist_concat_map: "x \<in> set xs \<Longrightarrow> sublist (f x) (concat (map f xs))"
proof -
  assume "x \<in> set xs"
  then obtain as bs where "xs = as @ x # bs" by (auto dest: split_list)
  then show ?thesis by simp
qed

lemma str_in_render_block:
  "sublist ls (cert_lines ctx) \<Longrightarrow> str_in (unlines ls) (render_certificate ctx)"
proof -
  assume "sublist ls (cert_lines ctx)"
  then obtain as bs where c: "cert_lines ctx = as @ ls @ bs" by (auto simp: sublist_def)
  have "str_in (unlines ls) (newline # unlines as @ unlines ls @ unlines bs @ replicate 8 CHR '' '')"
    using str_in_append_middle [of "unlines ls" "newline # unlines as"] by simp
  then show ?thesis by (simp add: render_certificate_def c)
qed

lemma str_in_render_in_block:
  "l \<in> set ls \<Longrightarrow> sublist ls (cert_lines ctx) \<Longrightarrow> str_in l (render_certificate ctx)"
  by (meson str_in_render_line set_mono_sublist subsetD)

lemma sections_in_cert_lines:
  "sublist (html_head_lines ctx) (cert_lines ctx)"
  "sublist (css_badge_lines ctx) (cert_lines ctx)"
  "sublist (info_bar_lines ctx) (cert_lines ctx)"
  "sublist (device_section_lines ctx) (cert_lines ctx)"
  "sublist (process_section_lines ctx) (cert_lines ctx)"
  "sublist (verification_section_lines ctx) (cert_lines ctx)"
  "sublist (additional_section_lines ctx) (cert_lines ctx)"
  "sublist statement_lines (cert_lines ctx)"
  "sublist (signature_lines ctx) (cert_lines ctx)"
  "sublist (footer_lines ctx) (cert_lines ctx)"
  unfolding cert_lines_def by (simp_all add: sublist_skip)

lemma data_item_in_grid:
  "(label, key) \<in> set items \<Longrightarrow>
     sublist (data_item 28 label (field_or ctx key ''N/A'')) (data_grid ctx items)"
proof -
  assume m: "(label, key) \<in> set items"
  have "sublist (data_item 28 label (field_or ctx key ''N/A''))
          (concat (map (\<lambda>(label, key). data_item 28 label (field_or ctx key ''N/A'')) items))"
    using sublist_concat_map [OF m, of "\<lambda>(label, key). data_item 28 label (field_or ctx key ''N/A'')"]
    by simp
  then have \<open>sublist (data_item 28 label (field_or ctx key ''N/A''))
    ([ind 24 ''<div class="data-grid">'']
     @ concat (map (\<lambda>(label, key). data_item 28 label (field_or ctx key ''N/A'')) items)
     @ [ind 24 ''</div>''])\<close>
    by (rule sublist_mid)
  then show ?thesis by (simp only: data_grid_def)
qed

lemma data_item_in_section:
  "(label, key) \<in> set items \<Longrightarrow>
     sublist (data_item 28 label (field_or ctx key ''N/A'')) (as @ data_grid ctx items @ bs)"
  by (rule sublist_mid) (rule data_item_in_grid)

lemma data_item_in_cert_lines:
  "(label, key) \<in> set all_data_fields \<Longrightarrow>
     sublist (data_item 28 label (field_or ctx key ''N/A'')) (cert_lines ctx)"
proof -
  let ?it = "data_item 28 label (field_or ctx key ''N/A'')"
  assume "(label, key) \<in> set all_data_fields"
  then consider "(label, key) \<in> set device_fields" | "(label, key) \<in> set process_fields"
    | "(label, key) \<in> set verification_fields" | "(label, key) \<in> set additional_fields"
    by (auto simp: all_data_fields_def)
  then show ?thesis
  proof cases
    case 1
    then have "sublist ?it (device_section_lines ctx)"
      unfolding device_section_lines_def by (rule data_item_in_section)
    then show ?thesis using sections_in_cert_lines(4) by (rule sublist_order.order.trans)
  next
    case 2
    then have "sublist ?it (process_section_lines ctx)"
      unfolding process_section_lines_def by (rule data_item_in_section)
    then show ?thesis using sections_in_cert_lines(5) by (rule sublist_order.order.trans)
  next
    case 3
    then have "sublist ?it (verification_section_lines ctx)"
      unfolding verification_section_lines_def by (rule data_item_in_section)
    then show ?thesis using sections_in_cert_lines(6) by (rule sublist_order.order.trans)
  next
    case 4
    then have "sublist ?it (additional_section_lines ctx)"
      unfolding additional_section_lines_def by (rule data_item_in_section)
    then show ?thesis using sections_in_cert_lines(7) by (rule sublist_order.order.trans)
  qed
qed

end
