(* ===== verification/Composer.thy ===== *)
theory Composer
  imports Status Clock Template
begin

text \<open>
  The document composer, \<open>ProfessionalCertificateGenerator.create_certificate_html\<close>
  (src/app.py lines 84--757).  Its inputs besides the attribute dictionary are the
  clock (\<open>datetime.now()\<close>, line 87) and the random token of \<open>uuid.uuid4()\<close>
  (line 89), both in the record \<open>compose_env\<close>.  \<open>cert_locals\<close> computes the
  locals of lines 87--91 and the three sub-expressions of the f-string that can raise,
  in the order Python evaluates them: the badge style (line 91), \<open>issue_date[:10]\<close>
  (line 727, evaluated even when \<open>technician_date\<close> is supplied, since a default
  argument is evaluated before the call) and \<open>cert_id.lower()\<close> (line 748).  The
  document is then \<open>render_certificate\<close> of theory \<open>Template\<close>.
\<close>

record compose_env =
  ce_now :: datetime      \<comment> \<open>\<open>datetime.now()\<close> of line 87\<close>
  ce_uuid_hex :: string   \<comment> \<open>\<open>uuid.uuid4().hex\<close> of line 89, 32 lowercase hex digits\<close>

definition synth_cert_id :: "string \<Rightarrow> string" where
  "synth_cert_id hex = ''CERT-'' @ py_upper (take 8 hex)"

definition cert_locals :: "compose_env \<Rightarrow> pydict \<Rightarrow> py_exc + cert_ctx" where
  "cert_locals env data =
     (let current_time = strftime_full (ce_now env);
          issue_date = dict_get data ''issue_date'' (PyStr current_time);
          cert_id = dict_get data ''certificate_id'' (PyStr (synth_cert_id (ce_uuid_hex env)));
          final_status = dict_get data ''final_status'' (PyStr ''VERIFIED'')
      in (case get_status_badge_style final_status of
            Inl e \<Rightarrow> Inl e
          | Inr status_badge_style \<Rightarrow>
              (case py_slice_to issue_date 10 of
                 Inl e \<Rightarrow> Inl e
               | Inr date10 \<Rightarrow>
                   (case py_lower_val cert_id of
                      Inl e \<Rightarrow> Inl e
                    | Inr link_id \<Rightarrow>
                        Inr \<lparr>cc_cert_id = py_format cert_id, cc_issue_date = py_format issue_date,
                             cc_status = py_format final_status, cc_style = status_badge_style,
                             cc_date10 = date10, cc_link_id = link_id,
                             cc_generated = current_time, cc_data = data\<rparr>))))"

definition create_certificate_html :: "compose_env \<Rightarrow> pydict \<Rightarrow> py_exc + string" where
  "create_certificate_html env data =
     (case cert_locals env data of Inl e \<Rightarrow> Inl e | Inr ctx \<Rightarrow> Inr (render_certificate ctx))"

subsection \<open>The resolved values\<close>

definition resolved_cert_id :: "compose_env \<Rightarrow> pydict \<Rightarrow> pyval" where
  "resolved_cert_id env data = dict_get data ''certificate_id'' (PyStr (synth_cert_id (ce_uuid_hex env)))"

definition resolved_issue_date :: "compose_env \<Rightarrow> pydict \<Rightarrow> pyval" where
  "resolved_issue_date env data = dict_get data ''issue_date'' (PyStr (strftime_full (ce_now env)))"

definition resolved_status :: "pydict \<Rightarrow> pyval" where
  "resolved_status data = dict_get data ''final_status'' (PyStr ''VERIFIED'')"

subsection \<open>Facts: The resolved values\<close>


text \<open>A concrete environment for the witnesses: 15 March 2024, 14:30:00, and a token.\<close>

definition example_env :: compose_env where
  "example_env = \<lparr>ce_now = \<lparr>dt_year = 2024, dt_month = 3, dt_day = 15, dt_hour = 14,
     dt_minute = 30, dt_second = 0, dt_micro = 0\<rparr>, ce_uuid_hex = ''3f2a9c1d7b4e4f0a9d2c5e6f7a8b9c0d''\<rparr>"

lemma cert_locals_Inr:
  "cert_locals env data = Inr ctx \<longleftrightarrow>
     (\<exists>style d10 cid. get_status_badge_style (resolved_status data) = Inr style
        \<and> py_slice_to (resolved_issue_date env data) 10 = Inr d10
        \<and> resolved_cert_id env data = PyStr cid
        \<and> ctx = \<lparr>cc_cert_id = cid, cc_issue_date = py_format (resolved_issue_date env data),
                 cc_status = py_format (resolved_status data), cc_style = style,
                 cc_date10 = d10, cc_link_id = py_lower cid,
                 cc_generated = strftime_full (ce_now env), cc_data = data\<rparr>)"
  unfolding cert_locals_def resolved_status_def resolved_issue_date_def resolved_cert_id_def Let_def
  by (auto split: sum.splits)

lemma create_certificate_html_Inr:
  "create_certificate_html env data = Inr html \<longleftrightarrow>
     (\<exists>ctx. cert_locals env data = Inr ctx \<and> html = render_certificate ctx)"
  by (auto simp: create_certificate_html_def split: sum.splits)

lemma cert_locals_data: "cert_locals env data = Inr ctx \<Longrightarrow> cc_data ctx = data"
  by (auto simp: cert_locals_Inr)

lemma cert_locals_succeeds_iff:
  "(\<exists>ctx. cert_locals env data = Inr ctx) \<longleftrightarrow>
     \<not> (py_truthy (resolved_status data) \<and> \<not> py_is_str (resolved_status data))
     \<and> py_is_str (resolved_issue_date env data) \<and> py_is_str (resolved_cert_id env data)"
proof -
  have st: "(\<exists>style. get_status_badge_style v = Inr style) \<longleftrightarrow> \<not> (py_truthy v \<and> \<not> py_is_str v)" for v
    by (cases v) (auto simp: get_status_badge_style_def split: if_splits)
  have sl: "(\<exists>d. py_slice_to v 10 = Inr d) \<longleftrightarrow> py_is_str v" for v
    by (cases v) auto
  show ?thesis
    unfolding cert_locals_Inr using st sl by (auto simp: py_is_str_iff)
qed

text \<open>
  The facts about one successful composition: the document is rendered from the
  locals, whose identifier, status and data are the resolved values.
\<close>

lemma compose_Inr_ctx:
  assumes "create_certificate_html env data = Inr html"
  obtains ctx where "html = render_certificate ctx" and "cc_data ctx = data"
    and "resolved_cert_id env data = PyStr (cc_cert_id ctx)"
    and "cc_link_id ctx = py_lower (cc_cert_id ctx)"
    and "cc_status ctx = py_format (resolved_status data)"
    and "cc_generated ctx = strftime_full (ce_now env)"
    and "py_slice_to (resolved_issue_date env data) 10 = Inr (cc_date10 ctx)"
proof -
  from assms obtain ctx where l: "cert_locals env data = Inr ctx" and h: "html = render_certificate ctx"
    by (auto simp: create_certificate_html_Inr)
  from l show thesis by (intro that [OF h]) (auto simp: cert_locals_Inr)
qed

lemma py_lower_CERT: "py_lower ''CERT-'' = ''cert-''"
  by code_simp

lemma ctx_field_absent:
  "cc_data ctx = data \<Longrightarrow> \<not> dict_has data k \<Longrightarrow> field_or ctx k d = d"
  by (simp add: field_or_def)

lemma field_or_data: "cc_data ctx = data \<Longrightarrow> field_or ctx k d = py_format (dict_get data k (PyStr d))"
  by (simp add: field_or_def)

lemma id_slots_in_render:
  \<open>str_in (ind 12 (''<title>Certificate of Authenticity - '' @ cc_cert_id ctx @ ''</title>'')) (render_certificate ctx)
   \<and> str_in (ind 32 (''<span class="info-value">'' @ cc_cert_id ctx @ ''</span>'')) (render_certificate ctx)
   \<and> str_in (unlines [ind 24 ''<div class="qr-code">'', ind 28 ''QR CODE<br>'', ind 28 (cc_cert_id ctx), ind 24 ''</div>''])
        (render_certificate ctx)
   \<and> str_in (ind 28 (''Generated: '' @ cc_generated ctx @ '' | Document ID: '' @ cc_cert_id ctx
        @ '' | Verification: secure-verify.com/'' @ cc_link_id ctx)) (render_certificate ctx)\<close>
proof (intro conjI)
  show "str_in (ind 12 (''<title>Certificate of Authenticity - '' @ cc_cert_id ctx @ ''</title>'')) (render_certificate ctx)"
    by (rule str_in_render_in_block [OF _ sections_in_cert_lines(1)]) (simp add: html_head_lines_def)
  show \<open>str_in (ind 32 (''<span class="info-value">'' @ cc_cert_id ctx @ ''</span>'')) (render_certificate ctx)\<close>
    by (rule str_in_render_in_block [OF _ sections_in_cert_lines(3)]) (simp add: info_bar_lines_def)
  show \<open>str_in (unlines [ind 24 ''<div class="qr-code">'', ind 28 ''QR CODE<br>'', ind 28 (cc_cert_id ctx), ind 24 ''</div>''])
        (render_certificate ctx)\<close>
    by (rule str_in_render_block [OF sublist_order.order.trans [OF _ sections_in_cert_lines(10)]])
      (simp add: footer_lines_def sublist_Cons_right)
  show "str_in (ind 28 (''Generated: '' @ cc_generated ctx @ '' | Document ID: '' @ cc_cert_id ctx
        @ '' | Verification: secure-verify.com/'' @ cc_link_id ctx)) (render_certificate ctx)"
    by (rule str_in_render_in_block [OF _ sections_in_cert_lines(10)]) (simp add: footer_lines_def)
qed

text \<open>The identifier in effect and the status text both occur in a composed document.\<close>

lemma compose_shows_id_status:
  assumes c: "create_certificate_html env data = Inr html" and r: "resolved_cert_id env data = PyStr cid"
  shows "str_in cid html \<and> str_in (py_format (resolved_status data)) html"
proof -
  from c obtain ctx where h: "html = render_certificate ctx" and i: "resolved_cert_id env data = PyStr (cc_cert_id ctx)"
    and st: "cc_status ctx = py_format (resolved_status data)"
    by (rule compose_Inr_ctx)
  from r i have cid: "cid = cc_cert_id ctx" by simp
  have \<open>str_in (ind 32 (''<span class="info-value">'' @ cc_cert_id ctx @ ''</span>'')) (render_certificate ctx)\<close>
    using id_slots_in_render [of ctx] by (rule conjunct1 [OF conjunct2])
  moreover have \<open>str_in (cc_cert_id ctx) (ind 32 (''<span class="info-value">'' @ cc_cert_id ctx @ ''</span>''))\<close>
    unfolding ind_def by (rule str_in_append_left) (rule str_in_append_middle)
  ultimately have "str_in cid html" unfolding cid h by (rule str_in_trans [rotated])
  have \<open>str_in (ind 32 (''<span class="status-badge"><span class="status-checkmark">'' @ glyph_check
        @ ''</span>'' @ cc_status ctx @ ''</span>'')) (render_certificate ctx)\<close>
    by (rule str_in_render_in_block [OF _ sections_in_cert_lines(3)]) (simp add: info_bar_lines_def)
  moreover have \<open>str_in (cc_status ctx) (ind 32 (''<span class="status-badge"><span class="status-checkmark">'' @ glyph_check
        @ ''</span>'' @ cc_status ctx @ ''</span>''))\<close>
    unfolding ind_def by (rule str_in_append_left, rule str_in_append_left, rule str_in_append_left,
      rule str_in_append_middle)
  ultimately have "str_in (cc_status ctx) html" unfolding h by (rule str_in_trans [rotated])
  with \<open>str_in cid html\<close> st show ?thesis by simp
qed

subsection \<open>Properties\<close>



text \<open>
  C4 (functional).  The identifier in effect appears in the title, in the information
  bar, under the QR placeholder and in the footer; the footer's verification link
  carries it lowercased, next to the generation time read from the clock.
\<close>

theorem compose_identifier_slots:
  \<open>create_certificate_html env data = Inr html \<Longrightarrow> resolved_cert_id env data = PyStr cid \<Longrightarrow>
     str_in (ind 12 (''<title>Certificate of Authenticity - '' @ cid @ ''</title>'')) html
   \<and> str_in (ind 32 (''<span class="info-value">'' @ cid @ ''</span>'')) html
   \<and> str_in (unlines [ind 24 ''<div class="qr-code">'', ind 28 ''QR CODE<br>'', ind 28 cid, ind 24 ''</div>'']) html
   \<and> str_in (ind 28 (''Generated: '' @ strftime_full (ce_now env) @ '' | Document ID: '' @ cid
        @ '' | Verification: secure-verify.com/'' @ py_lower cid)) html\<close>
proof -
  assume c: "create_certificate_html env data = Inr html" and r: "resolved_cert_id env data = PyStr cid"
  from c obtain ctx where "html = render_certificate ctx" and "resolved_cert_id env data = PyStr (cc_cert_id ctx)"
    and "cc_link_id ctx = py_lower (cc_cert_id ctx)" and "cc_generated ctx = strftime_full (ce_now env)"
    by (rule compose_Inr_ctx)
  with r id_slots_in_render [of ctx] show ?thesis by simp
qed

text \<open>
  C9 (functional).  Without a technician the information bar says \<open>N/A\<close>, but the
  signature block names ``John Smith'' and, without a supervisor, ``Jane Doe'':
  the certificate is signed by invented people.
\<close>

theorem compose_default_signatories:
  \<open>\<not> dict_has data ''technician_name'' \<Longrightarrow> \<not> dict_has data ''supervisor_name'' \<Longrightarrow>
   create_certificate_html env data = Inr html \<Longrightarrow>
     str_in (ind 32 ''<span class="info-value">N/A</span>'') html
   \<and> str_in (ind 32 ''<div class="signature-name">John Smith</div>'') html
   \<and> str_in (ind 32 ''<div class="signature-name">Jane Doe</div>'') html\<close>
proof -
  assume t: "\<not> dict_has data ''technician_name''" and s: "\<not> dict_has data ''supervisor_name''"
    and c: "create_certificate_html env data = Inr html"
  from c obtain ctx where h: "html = render_certificate ctx" and d: "cc_data ctx = data"
    by (rule compose_Inr_ctx)
  have f1: "field_or ctx ''technician_name'' d = d" for d using d t by (rule ctx_field_absent)
  have f2: "field_or ctx ''supervisor_name'' d = d" for d using d s by (rule ctx_field_absent)
  have \<open>str_in (ind 32 ''<span class="info-value">N/A</span>'') (render_certificate ctx)\<close>
    by (rule str_in_render_in_block [OF _ sections_in_cert_lines(3)]) (simp add: info_bar_lines_def f1)
  moreover have \<open>str_in (ind 32 ''<div class="signature-name">John Smith</div>'') (render_certificate ctx)\<close>
    by (rule str_in_render_in_block [OF _ sections_in_cert_lines(9)]) (simp add: signature_lines_def f1)
  moreover have \<open>str_in (ind 32 ''<div class="signature-name">Jane Doe</div>'') (render_certificate ctx)\<close>
    by (rule str_in_render_in_block [OF _ sections_in_cert_lines(9)]) (simp add: signature_lines_def f2)
  ultimately show ?thesis by (simp add: h)
qed

text \<open>
  C10 (functional).  An empty \<open>certificate_id\<close> is kept, not replaced by a
  generated one: the title and the footer then carry an empty identifier.
\<close>

theorem compose_keeps_empty_id:
  \<open>dict_wf data \<Longrightarrow> (''certificate_id'', PyStr []) \<in> set data \<Longrightarrow>
   create_certificate_html env data = Inr html \<Longrightarrow>
     str_in (ind 12 ''<title>Certificate of Authenticity - </title>'') html
   \<and> str_in (ind 28 (''Generated: '' @ strftime_full (ce_now env)
        @ '' | Document ID:  | Verification: secure-verify.com/'')) html\<close>
proof -
  assume w: "dict_wf data" and m: "(''certificate_id'', PyStr []) \<in> set data"
    and c: "create_certificate_html env data = Inr html"
  from c obtain ctx where "html = render_certificate ctx"
    and "resolved_cert_id env data = PyStr (cc_cert_id ctx)"
    and "cc_link_id ctx = py_lower (cc_cert_id ctx)" and "cc_generated ctx = strftime_full (ce_now env)"
    by (rule compose_Inr_ctx)
  moreover have "resolved_cert_id env data = PyStr []"
    using w m by (simp add: resolved_cert_id_def dict_get_present)
  ultimately show ?thesis using id_slots_in_render [of ctx] by (simp add: py_lower_def)
qed

text \<open>
  C11 (functional).  Without \<open>certificate_id\<close> the identifier is \<open>CERT-\<close> and the
  first eight digits of the random token in upper case; the verification link carries
  it in lower case, so the link never holds the identifier shown on the certificate.
\<close>

theorem compose_generated_id:
  "\<not> dict_has data ''certificate_id'' \<Longrightarrow> create_certificate_html env data = Inr html \<Longrightarrow>
     resolved_cert_id env data = PyStr (''CERT-'' @ py_upper (take 8 (ce_uuid_hex env)))
   \<and> str_in (''secure-verify.com/cert-'' @ py_lower (take 8 (ce_uuid_hex env))) html
   \<and> py_lower (synth_cert_id (ce_uuid_hex env)) \<noteq> synth_cert_id (ce_uuid_hex env)"
proof -
  assume a: "\<not> dict_has data ''certificate_id''" and c: "create_certificate_html env data = Inr html"
  have r: "resolved_cert_id env data = PyStr (synth_cert_id (ce_uuid_hex env))"
    using a by (simp add: resolved_cert_id_def)
  from c obtain ctx where h: "html = render_certificate ctx"
    and i: "resolved_cert_id env data = PyStr (cc_cert_id ctx)"
    and l: "cc_link_id ctx = py_lower (cc_cert_id ctx)"
    by (rule compose_Inr_ctx)
  have cid: "cc_cert_id ctx = synth_cert_id (ce_uuid_hex env)" using r i by simp
  have link: "py_lower (synth_cert_id (ce_uuid_hex env)) = ''cert-'' @ py_lower (take 8 (ce_uuid_hex env))"
    unfolding synth_cert_id_def py_lower_append py_lower_CERT py_lower_upper by (rule refl)
  have "str_in (ind 28 (''Generated: '' @ cc_generated ctx @ '' | Document ID: '' @ cc_cert_id ctx
        @ '' | Verification: secure-verify.com/'' @ cc_link_id ctx)) html"
    using id_slots_in_render [of ctx] h by simp
  moreover have "str_in (''secure-verify.com/cert-'' @ py_lower (take 8 (ce_uuid_hex env)))
      (ind 28 (''Generated: '' @ cc_generated ctx @ '' | Document ID: '' @ cc_cert_id ctx
        @ '' | Verification: secure-verify.com/'' @ cc_link_id ctx))"
    using str_in_append_middle [of "''secure-verify.com/cert-'' @ py_lower (take 8 (ce_uuid_hex env))"
        "ind 28 (''Generated: '' @ cc_generated ctx @ '' | Document ID: '' @ cc_cert_id ctx @ '' | Verification: '')" "[]"]
    by (simp add: l cid link ind_def)
  moreover have "py_lower (synth_cert_id (ce_uuid_hex env)) \<noteq> synth_cert_id (ce_uuid_hex env)"
    unfolding link by (simp add: synth_cert_id_def)
  ultimately show ?thesis using r by (auto simp: synth_cert_id_def intro: str_in_trans)
qed

text \<open>
  C12 (functional).  Without \<open>issue_date\<close> and \<open>technician_date\<close> the
  technician's signature is dated with the date part of the clock, the slice
  \<open>issue_date[:10]\<close> of the default timestamp.
\<close>

theorem compose_default_signature_date:
  \<open>\<not> dict_has data ''issue_date'' \<Longrightarrow> \<not> dict_has data ''technician_date'' \<Longrightarrow>
   dt_valid (ce_now env) \<Longrightarrow> 1000 \<le> dt_year (ce_now env) \<Longrightarrow>
   create_certificate_html env data = Inr html \<Longrightarrow>
     str_in (ind 32 (''<div class="signature-date">Date: '' @ strftime_date (ce_now env) @ ''</div>'')) html\<close>
proof -
  assume i: "\<not> dict_has data ''issue_date''" and t: "\<not> dict_has data ''technician_date''"
    and v: "dt_valid (ce_now env)" and y: "1000 \<le> dt_year (ce_now env)"
    and c: "create_certificate_html env data = Inr html"
  from c obtain ctx where h: "html = render_certificate ctx" and d: "cc_data ctx = data"
    and s: "py_slice_to (resolved_issue_date env data) 10 = Inr (cc_date10 ctx)"
    by (rule compose_Inr_ctx)
  have "cc_date10 ctx = PyStr (strftime_date (ce_now env))"
    using s i utf8_take_strftime_full [OF v y] by (simp add: resolved_issue_date_def)
  then have "sig_date ctx ''technician_date'' = strftime_date (ce_now env)"
    using d t by (simp add: sig_date_def)
  then have \<open>str_in (ind 32 (''<div class="signature-date">Date: '' @ strftime_date (ce_now env) @ ''</div>''))
      (render_certificate ctx)\<close>
    by (intro str_in_render_in_block [OF _ sections_in_cert_lines(9)]) (simp add: signature_lines_def)
  with h show ?thesis by simp
qed

text \<open>
  C13 (equivalence).  With \<open>certificate_id\<close> supplied the random token has no
  influence: the composition is the same for every token.
\<close>

theorem compose_token_irrelevant:
  "dict_has data ''certificate_id'' \<Longrightarrow>
     create_certificate_html (env\<lparr>ce_uuid_hex := h\<rparr>) data = create_certificate_html env data"
proof -
  assume "dict_has data ''certificate_id''"
  then have "dict_get data ''certificate_id'' (PyStr (synth_cert_id h))
      = dict_get data ''certificate_id'' (PyStr (synth_cert_id (ce_uuid_hex env)))"
    by (rule dict_get_default_irrelevant)
  then show ?thesis by (simp add: create_certificate_html_def cert_locals_def Let_def)
qed


text \<open>
  C15 (functional).  Values are inserted without HTML escaping: the notes text appears
  verbatim inside its element, markup included.
\<close>

theorem compose_inserts_raw_markup:
  \<open>dict_wf data \<Longrightarrow> (''notes'', PyStr v) \<in> set data \<Longrightarrow> create_certificate_html env data = Inr html \<Longrightarrow>
     str_in (ind 28 (''<div class="data-value">'' @ v @ ''</div>'')) html\<close>
proof -
  assume w: "dict_wf data" and m: "(''notes'', PyStr v) \<in> set data"
    and c: "create_certificate_html env data = Inr html"
  from c obtain ctx where h: "html = render_certificate ctx" and d: "cc_data ctx = data"
    by (rule compose_Inr_ctx)
  have "field_or ctx ''notes'' ''N/A'' = v" using w m d by (simp add: field_or_def dict_get_present)
  then have \<open>str_in (ind 28 (''<div class="data-value">'' @ v @ ''</div>'')) (render_certificate ctx)\<close>
    by (intro str_in_render_in_block [OF _ sections_in_cert_lines(7)]) (simp add: additional_section_lines_def)
  with h show ?thesis by simp
qed

lemma example_status_styles:
  "get_status_badge_style (PyStr ''VERIFIED'') = Inr style_unknown"
  "get_status_badge_style (PyStr ''PASSED'') = Inr style_success"
  "get_status_badge_style (PyStr ''FAILED'') = Inr style_failure"
  by code_simp+



theorem compose_identifier_slots_witness:
  \<open>\<exists>html. create_certificate_html example_env [(''certificate_id'', PyStr ''CERT-TEST-1'')] = Inr html
     \<and> str_in (ind 12 (''<title>Certificate of Authenticity - CERT-TEST-1</title>'')) html
     \<and> str_in (ind 32 (''<span class="info-value">CERT-TEST-1</span>'')) html
     \<and> str_in (ind 28 (''Generated: '' @ strftime_full (ce_now example_env)
          @ '' | Document ID: CERT-TEST-1 | Verification: secure-verify.com/cert-test-1'')) html\<close>
proof -
  let ?d = "[(''certificate_id'', PyStr ''CERT-TEST-1'')]"
  obtain html where c: "create_certificate_html example_env ?d = Inr html"
    by (simp add: create_certificate_html_def cert_locals_def dict_get_Cons example_status_styles Let_def)
  have r: "resolved_cert_id example_env ?d = PyStr ''CERT-TEST-1''"
    by (simp add: resolved_cert_id_def dict_get_Cons)
  have l: "py_lower ''CERT-TEST-1'' = ''cert-test-1''" by code_simp
  show ?thesis using c compose_identifier_slots [OF c r] by (simp add: l)
qed

theorem compose_default_signatories_witness:
  \<open>\<exists>html. create_certificate_html example_env [] = Inr html
     \<and> str_in (ind 32 ''<span class="info-value">N/A</span>'') html
     \<and> str_in (ind 32 ''<div class="signature-name">John Smith</div>'') html\<close>
proof -
  obtain html where c: "create_certificate_html example_env [] = Inr html"
    by (simp add: create_certificate_html_def cert_locals_def dict_get_Cons example_status_styles Let_def)
  have t: "\<not> dict_has [] ''technician_name''" and s: "\<not> dict_has [] ''supervisor_name''"
    by (simp_all add: dict_has_Cons)
  show ?thesis using c compose_default_signatories [OF t s c] by blast
qed

theorem compose_keeps_empty_id_witness:
  \<open>\<exists>html. create_certificate_html example_env [(''certificate_id'', PyStr [])] = Inr html
     \<and> str_in (ind 12 ''<title>Certificate of Authenticity - </title>'') html\<close>
proof -
  let ?d = "[(''certificate_id'', PyStr [])]"
  obtain html where c: "create_certificate_html example_env ?d = Inr html"
    by (simp add: create_certificate_html_def cert_locals_def dict_get_Cons example_status_styles Let_def)
  have w: "dict_wf ?d" by (simp add: dict_wf_def)
  have m: "(''certificate_id'', PyStr []) \<in> set ?d" by simp
  show ?thesis using c compose_keeps_empty_id [OF w m c] by blast
qed

theorem compose_generated_id_witness:
  "\<exists>html. create_certificate_html example_env [] = Inr html
     \<and> resolved_cert_id example_env [] = PyStr ''CERT-3F2A9C1D''
     \<and> str_in ''secure-verify.com/cert-3f2a9c1d'' html"
proof -
  obtain html where c: "create_certificate_html example_env [] = Inr html"
    by (simp add: create_certificate_html_def cert_locals_def dict_get_Cons example_status_styles Let_def)
  have a: "\<not> dict_has [] ''certificate_id''" by (simp add: dict_has_Cons)
  have u: "py_upper (take 8 (ce_uuid_hex example_env)) = ''3F2A9C1D''"
    and l: "py_lower (take 8 (ce_uuid_hex example_env)) = ''3f2a9c1d''"
    by (simp_all add: example_env_def) code_simp+
  show ?thesis using c compose_generated_id [OF a c] by (simp add: u l)
qed

theorem compose_default_signature_date_witness:
  \<open>\<exists>html. create_certificate_html example_env [] = Inr html
     \<and> str_in (ind 32 (''<div class="signature-date">Date: '' @ strftime_date (ce_now example_env) @ ''</div>'')) html\<close>
proof -
  obtain html where c: "create_certificate_html example_env [] = Inr html"
    by (simp add: create_certificate_html_def cert_locals_def dict_get_Cons example_status_styles Let_def)
  have i: "\<not> dict_has [] ''issue_date''" and t: "\<not> dict_has [] ''technician_date''"
    by (simp_all add: dict_has_Cons)
  have v: "dt_valid (ce_now example_env)" and y: "1000 \<le> dt_year (ce_now example_env)"
    by (simp_all add: example_env_def dt_valid_def)
  show ?thesis using c compose_default_signature_date [OF i t v y c] by blast
qed

theorem compose_token_irrelevant_witness:
  "create_certificate_html (example_env\<lparr>ce_uuid_hex := ''00000000''\<rparr>) [(''certificate_id'', PyStr ''CERT-TEST-1'')]
   = create_certificate_html example_env [(''certificate_id'', PyStr ''CERT-TEST-1'')]"
proof -
  have "dict_has [(''certificate_id'', PyStr ''CERT-TEST-1'')] ''certificate_id''" by (simp add: dict_has_Cons)
  then show ?thesis by (rule compose_token_irrelevant)
qed


theorem compose_inserts_raw_markup_witness:
  \<open>\<exists>html. create_certificate_html example_env [(''notes'', PyStr ''</div><script>x()</script>'')] = Inr html
     \<and> str_in (ind 28 ''<div class="data-value"></div><script>x()</script></div>'') html\<close>
proof -
  let ?d = "[(''notes'', PyStr ''</div><script>x()</script>'')]"
  obtain html where c: "create_certificate_html example_env ?d = Inr html"
    by (simp add: create_certificate_html_def cert_locals_def dict_get_Cons example_status_styles Let_def)
  have w: "dict_wf ?d" by (simp add: dict_wf_def)
  have m: "(''notes'', PyStr ''</div><script>x()</script>'') \<in> set ?d" by simp
  show ?thesis using c compose_inserts_raw_markup [OF w m c] by simp
qed

end
