(* ===== verification/Pipeline.thy ===== *)
theory Pipeline
  imports Composer
begin

text \<open>
  The render pipeline.  \<open>ProfessionalCertificateGenerator.__init__\<close> (src/app.py
  lines 20--40) fixes the wkhtmltopdf options and looks the executable up once
  (\<open>setup_wkhtmltopdf_config\<close>, lines 42--69): on Windows the first of four
  installation paths that exists, otherwise (and when none exists) \<open>None\<close>, which
  makes pdfkit use the system \<open>PATH\<close>.  \<open>create_certificate\<close> (lines 759--797)
  composes the HTML, writes it to a \<open>NamedTemporaryFile(delete=False)\<close>, runs the
  renderer on that file and, in a \<open>finally\<close> block, deletes the file if it exists.

  The file system is a map from paths to contents (\<open>files\<close>).  The outcomes of the
  operations the program does not control are inputs, in the record \<open>render_env\<close>:
  the name \<open>tempfile\<close> picks, whether writing and unlinking raise, and the
  renderer as a function of the configuration, the options and the file's contents.
  \<open>serve\<close> runs a sequence of requests on one file system.
\<close>

type_synonym files = "string \<rightharpoonup> string"

datatype platform = Windows | Posix

record generator =
  gen_config :: "string option"       \<comment> \<open>\<open>self.pdfkit_config\<close>: the executable, or the \<open>PATH\<close>\<close>
  gen_options :: "(string \<times> pyval) list"  \<comment> \<open>\<open>self.options\<close>\<close>

record render_env =
  re_tmp_name :: string
  re_write :: "py_exc option"          \<comment> \<open>\<open>temp_html.write\<close> raises, or not\<close>
  re_render :: "string option \<Rightarrow> (string \<times> pyval) list \<Rightarrow> string \<Rightarrow> py_exc + string"
  re_unlink :: "py_exc option"         \<comment> \<open>\<open>os.unlink\<close> raises, or not\<close>

subsection \<open>Configuration\<close>

definition wk_options :: "(string \<times> pyval) list" where
  "wk_options =
     [(''page-size'', PyStr ''A4''), (''orientation'', PyStr ''Portrait''),
      (''margin-top'', PyStr ''0.5in''), (''margin-right'', PyStr ''0.5in''),
      (''margin-bottom'', PyStr ''0.5in''), (''margin-left'', PyStr ''0.5in''),
      (''encoding'', PyStr ''UTF-8''), (''no-outline'', PyNone),
      (''enable-local-file-access'', PyNone), (''print-media-type'', PyNone),
      (''disable-smart-shrinking'', PyNone), (''dpi'', PyInt 300),
      (''image-quality'', PyInt 100), (''minimum-font-size'', PyInt 8)]"

text \<open>A raw Windows path: its components joined by backslashes.\<close>

definition win_path :: "string list \<Rightarrow> string" where
  "win_path cs = concat (map (\<lambda>c. c @ [CHR 0x5C]) (butlast cs)) @ last cs"

definition wk_candidate_paths :: "string \<Rightarrow> string list" where
  "wk_candidate_paths username =
     [win_path [''C:'', ''Program Files'', ''wkhtmltopdf'', ''bin'', ''wkhtmltopdf.exe''],
      win_path [''C:'', ''Program Files (x86)'', ''wkhtmltopdf'', ''bin'', ''wkhtmltopdf.exe''],
      win_path [''C:'', ''Users'', username, ''AppData'', ''Local'', ''Programs'', ''wkhtmltopdf'', ''bin'',
                ''wkhtmltopdf.exe''],
      win_path [''C:'', ''wkhtmltopdf'', ''bin'', ''wkhtmltopdf.exe'']]"

text \<open>The \<open>for path in possible_paths: if os.path.exists(path): ...; break\<close> loop.\<close>

fun find_first :: "('a \<Rightarrow> bool) \<Rightarrow> 'a list \<Rightarrow> 'a option" where
  "find_first p [] = None"
| "find_first p (x # xs) = (if p x then Some x else find_first p xs)"

definition setup_wkhtmltopdf_config :: "platform \<Rightarrow> string \<Rightarrow> (string \<Rightarrow> bool) \<Rightarrow> string option" where
  "setup_wkhtmltopdf_config sys username exists =
     (if sys = Windows then find_first exists (wk_candidate_paths username) else None)"

definition init_generator :: "platform \<Rightarrow> string \<Rightarrow> (string \<Rightarrow> bool) \<Rightarrow> generator" where
  "init_generator sys username exists =
     \<lparr>gen_config = setup_wkhtmltopdf_config sys username exists, gen_options = wk_options\<rparr>"

subsection \<open>The pipeline\<close>

text \<open>Reading the file back, as the renderer does (\<open>FileNotFoundError\<close> if it is gone).\<close>

definition read_file :: "files \<Rightarrow> string \<Rightarrow> py_exc + string" where
  "read_file fs p = (case fs p of Some c \<Rightarrow> Inr c | None \<Rightarrow> Inl (OSError ''No such file or directory''))"

text \<open>
  \<open>pdfkit.from_file(temp_html_path, False, options=..., configuration=...)\<close> (lines
  776--781): the configured executable or the \<open>PATH\<close>, the fixed options, the
  file's contents.
\<close>

definition render_file :: "generator \<Rightarrow> render_env \<Rightarrow> files \<Rightarrow> string \<Rightarrow> py_exc + string" where
  "render_file g renv fs p =
     (case read_file fs p of
        Inl e \<Rightarrow> Inl e
      | Inr c \<Rightarrow> re_render renv (gen_config g) (gen_options g) c)"

text \<open>
  The \<open>finally\<close> block (lines 787--791): the file is deleted if it exists; an error
  of \<open>os.unlink\<close> replaces the result of the \<open>try\<close> block, value or exception.
\<close>

definition finally_cleanup :: "render_env \<Rightarrow> string \<Rightarrow> py_exc + string \<Rightarrow> files \<Rightarrow> (py_exc + string) \<times> files" where
  "finally_cleanup renv p r fs =
     (if fs p \<noteq> None then
        (case re_unlink renv of None \<Rightarrow> (r, fs(p := None)) | Some e \<Rightarrow> (Inl e, fs))
      else (r, fs))"

text \<open>
  \<open>create_certificate\<close>: compose; create the temporary file (empty) and write the
  HTML into it, an error of the write leaving the file behind; render; clean up.
  The outer \<open>except\<close> only logs and re-raises, so errors pass through unchanged.
\<close>

definition create_certificate ::
  "generator \<Rightarrow> compose_env \<Rightarrow> render_env \<Rightarrow> pydict \<Rightarrow> files \<Rightarrow> (py_exc + string) \<times> files" where
  "create_certificate g cenv renv data fs =
     (case create_certificate_html cenv data of
        Inl e \<Rightarrow> (Inl e, fs)
      | Inr html \<Rightarrow>
          (let p = re_tmp_name renv in
           case re_write renv of
             Some e \<Rightarrow> (Inl e, fs(p \<mapsto> []))
           | None \<Rightarrow>
               (let fs2 = fs(p \<mapsto> html)
                in finally_cleanup renv p (render_file g renv fs2 p) fs2)))"

subsection \<open>A sequence of requests\<close>

record request =
  rq_compose :: compose_env
  rq_render :: render_env
  rq_data :: pydict

fun serve :: "generator \<Rightarrow> files \<Rightarrow> request list \<Rightarrow> files" where
  "serve g fs [] = fs"
| "serve g fs (r # rs) = serve g (snd (create_certificate g (rq_compose r) (rq_render r) (rq_data r) fs)) rs"

text \<open>
  A request can leave its temporary file behind only when its write or its unlink
  raises.
\<close>

definition may_leak :: "request \<Rightarrow> bool" where
  "may_leak r \<longleftrightarrow> re_write (rq_render r) \<noteq> None \<or> re_unlink (rq_render r) \<noteq> None"

text \<open>Concrete inputs for the witnesses: a POSIX host, and a renderer that succeeds.\<close>

definition example_generator :: generator where
  "example_generator = init_generator Posix [] (\<lambda>_. False)"

definition example_render :: render_env where
  "example_render = \<lparr>re_tmp_name = ''/tmp/tmpk2j4x9.html'', re_write = None,
     re_render = (\<lambda>cfg opts c. Inr ''%PDF-1.4''), re_unlink = None\<rparr>"

subsection \<open>Facts\<close>

lemma create_certificate_compose_error:
  "create_certificate_html cenv data = Inl e \<Longrightarrow> create_certificate g cenv renv data fs = (Inl e, fs)"
  by (simp add: create_certificate_def)

lemma create_certificate_written:
  "create_certificate_html cenv data = Inr html \<Longrightarrow> re_write renv = None \<Longrightarrow>
     create_certificate g cenv renv data fs =
       (case re_unlink renv of
          None \<Rightarrow> (re_render renv (gen_config g) (gen_options g) html, fs(re_tmp_name renv := None))
        | Some e \<Rightarrow> (Inl e, fs(re_tmp_name renv \<mapsto> html)))"
  by (simp add: create_certificate_def finally_cleanup_def render_file_def read_file_def Let_def
      split: option.splits)

lemma create_certificate_write_error:
  "create_certificate_html cenv data = Inr html \<Longrightarrow> re_write renv = Some e \<Longrightarrow>
     create_certificate g cenv renv data fs = (Inl e, fs(re_tmp_name renv \<mapsto> []))"
  by (simp add: create_certificate_def Let_def)

text \<open>Every path other than the temporary file is left alone.\<close>

lemma create_certificate_frame:
  "q \<noteq> re_tmp_name renv \<Longrightarrow> snd (create_certificate g cenv renv data fs) q = fs q"
  by (cases "create_certificate_html cenv data"; cases "re_write renv"; cases "re_unlink renv")
     (simp_all add: create_certificate_compose_error create_certificate_written create_certificate_write_error)

lemma create_certificate_files:
  "snd (create_certificate g cenv renv data fs) = fs
   \<or> snd (create_certificate g cenv renv data fs) = fs(re_tmp_name renv := None)
   \<or> (\<exists>c. snd (create_certificate g cenv renv data fs) = fs(re_tmp_name renv \<mapsto> c))"
  by (cases "create_certificate_html cenv data"; cases "re_write renv"; cases "re_unlink renv")
     (auto simp: create_certificate_compose_error create_certificate_written create_certificate_write_error)

lemma create_certificate_no_leak:
  "re_write renv = None \<Longrightarrow> re_unlink renv = None \<Longrightarrow> fs (re_tmp_name renv) = None \<Longrightarrow>
     snd (create_certificate g cenv renv data fs) = fs"
  by (cases "create_certificate_html cenv data")
     (auto simp: create_certificate_compose_error create_certificate_written)

lemma find_first_Some_iff:
  "find_first P xs = Some x \<longleftrightarrow> (\<exists>i < length xs. xs ! i = x \<and> P x \<and> (\<forall>j < i. \<not> P (xs ! j)))"
proof (induction xs)
  case Nil
  then show ?case by simp
next
  case (Cons y ys)
  show ?case
  proof (cases "P y")
    case True
    have "(\<exists>i < length (y # ys). (y # ys) ! i = x \<and> P x \<and> (\<forall>j < i. \<not> P ((y # ys) ! j)))
        \<longleftrightarrow> x = y"
    proof
      assume "\<exists>i < length (y # ys). (y # ys) ! i = x \<and> P x \<and> (\<forall>j < i. \<not> P ((y # ys) ! j))"
      then obtain i where i: "(y # ys) ! i = x" "\<forall>j < i. \<not> P ((y # ys) ! j)" by blast
      have "i = 0"
      proof (rule ccontr)
        assume "i \<noteq> 0"
        with i(2) have "\<not> P ((y # ys) ! 0)" by blast
        with True show False by simp
      qed
      with i(1) show "x = y" by simp
    next
      assume "x = y"
      with True show "\<exists>i < length (y # ys). (y # ys) ! i = x \<and> P x \<and> (\<forall>j < i. \<not> P ((y # ys) ! j))"
        by (intro exI [of _ 0]) simp
    qed
    with True show ?thesis by auto
  next
    case False
    have "(\<exists>i < length (y # ys). (y # ys) ! i = x \<and> P x \<and> (\<forall>j < i. \<not> P ((y # ys) ! j)))
        \<longleftrightarrow> (\<exists>i < length ys. ys ! i = x \<and> P x \<and> (\<forall>j < i. \<not> P (ys ! j)))"
    proof
      assume "\<exists>i < length (y # ys). (y # ys) ! i = x \<and> P x \<and> (\<forall>j < i. \<not> P ((y # ys) ! j))"
      then obtain i where i: "i < length (y # ys)" "(y # ys) ! i = x" "P x" "\<forall>j < i. \<not> P ((y # ys) ! j)"
        by blast
      with False obtain k where k: "i = Suc k" by (cases i) auto
      have "\<forall>j < k. \<not> P (ys ! j)"
      proof (intro allI impI)
        fix j assume "j < k"
        then have "Suc j < i" using k by simp
        with i(4) show "\<not> P (ys ! j)" by fastforce
      qed
      with i k show "\<exists>i < length ys. ys ! i = x \<and> P x \<and> (\<forall>j < i. \<not> P (ys ! j))" by auto
    next
      assume "\<exists>i < length ys. ys ! i = x \<and> P x \<and> (\<forall>j < i. \<not> P (ys ! j))"
      then obtain i where i: "i < length ys" "ys ! i = x" "P x" "\<forall>j < i. \<not> P (ys ! j)" by blast
      have "\<forall>j < Suc i. \<not> P ((y # ys) ! j)"
      proof (intro allI impI)
        fix j assume "j < Suc i"
        with i(4) False show "\<not> P ((y # ys) ! j)" by (cases j) auto
      qed
      with i show "\<exists>i < length (y # ys). (y # ys) ! i = x \<and> P x \<and> (\<forall>j < i. \<not> P ((y # ys) ! j))"
        by (intro exI [of _ "Suc i"]) simp
    qed
    with False Cons.IH show ?thesis by simp
  qed
qed

lemma create_certificate_changes:
  "snd (create_certificate g cenv renv data fs) q \<noteq> fs q \<Longrightarrow>
     q = re_tmp_name renv \<and> (re_write renv \<noteq> None \<or> re_unlink renv \<noteq> None \<or> fs q \<noteq> None)"
proof -
  assume ch: "snd (create_certificate g cenv renv data fs) q \<noteq> fs q"
  then have q: "q = re_tmp_name renv" using create_certificate_frame by blast
  have "re_write renv \<noteq> None \<or> re_unlink renv \<noteq> None \<or> fs q \<noteq> None"
  proof (rule ccontr)
    assume "\<not> (re_write renv \<noteq> None \<or> re_unlink renv \<noteq> None \<or> fs q \<noteq> None)"
    then have "re_write renv = None" "re_unlink renv = None" "fs (re_tmp_name renv) = None"
      using q by auto
    then have "snd (create_certificate g cenv renv data fs) = fs" by (rule create_certificate_no_leak)
    with ch show False by simp
  qed
  with q show ?thesis by simp
qed

subsection \<open>Properties\<close>

text \<open>
  C16 (safety).  When the temporary name is fresh and neither the write nor the
  unlink raises, \<open>create_certificate\<close> returns exactly what the renderer returns
  for the composed HTML, the configured executable and the fixed options (a PDF or
  the renderer's error, unchanged), and the file system is as before: the temporary
  file is gone on success and on a renderer error alike.
\<close>

theorem create_certificate_clean:
  "create_certificate_html cenv data = Inr html \<Longrightarrow> re_write renv = None \<Longrightarrow>
   re_unlink renv = None \<Longrightarrow> fs (re_tmp_name renv) = None \<Longrightarrow>
     create_certificate g cenv renv data fs = (re_render renv (gen_config g) (gen_options g) html, fs)"
  by (simp add: create_certificate_written fun_upd_idem)

text \<open>
  C17 (error).  An error of \<open>os.unlink\<close> in the \<open>finally\<close> block replaces the
  result: a rendered PDF is lost, and the temporary file, holding the certificate's
  HTML, stays on disk.
\<close>

theorem create_certificate_unlink_masks:
  "create_certificate_html cenv data = Inr html \<Longrightarrow> re_write renv = None \<Longrightarrow> re_unlink renv = Some e \<Longrightarrow>
     create_certificate g cenv renv data fs = (Inl e, fs(re_tmp_name renv \<mapsto> html))"
  by (simp add: create_certificate_written)

text \<open>
  C18 (error).  An error while writing the temporary file propagates, and the file,
  created with \<open>delete=False\<close> before the \<open>try\<close>/\<open>finally\<close>, is never removed.
\<close>

theorem create_certificate_write_leaks:
  "create_certificate_html cenv data = Inr html \<Longrightarrow> re_write renv = Some e \<Longrightarrow>
     create_certificate g cenv renv data fs = (Inl e, fs(re_tmp_name renv \<mapsto> []))"
  by (rule create_certificate_write_error)

text \<open>
  C19 (invariant).  Over any sequence of requests whose temporary names are distinct
  and fresh, a path whose contents changed is the temporary file of a request whose
  write or unlink raised: every other request cleans up after itself.
\<close>

theorem serve_changes_only_leaked:
  "distinct (map (re_tmp_name \<circ> rq_render) rs) \<Longrightarrow>
   (\<forall>r \<in> set rs. fs (re_tmp_name (rq_render r)) = None) \<Longrightarrow>
   serve g fs rs q \<noteq> fs q \<Longrightarrow>
     \<exists>r \<in> set rs. may_leak r \<and> re_tmp_name (rq_render r) = q"
proof (induction rs arbitrary: fs)
  case Nil
  then show ?case by simp
next
  case (Cons r rs)
  let ?fs' = "snd (create_certificate g (rq_compose r) (rq_render r) (rq_data r) fs)"
  have fresh': "\<forall>r' \<in> set rs. ?fs' (re_tmp_name (rq_render r')) = None"
  proof
    fix r' assume r': "r' \<in> set rs"
    have "re_tmp_name (rq_render r) \<notin> (\<lambda>a. re_tmp_name (rq_render a)) ` set rs"
      using Cons.prems(1) by simp
    then have "re_tmp_name (rq_render r') \<noteq> re_tmp_name (rq_render r)" using r' by (metis image_eqI)
    with r' Cons.prems(2) show "?fs' (re_tmp_name (rq_render r')) = None"
      by (simp add: create_certificate_frame)
  qed
  show ?case
  proof (cases "serve g ?fs' rs q = ?fs' q")
    case True
    with Cons.prems(3) have "?fs' q \<noteq> fs q" by simp
    then have "q = re_tmp_name (rq_render r)"
      and "re_write (rq_render r) \<noteq> None \<or> re_unlink (rq_render r) \<noteq> None \<or> fs q \<noteq> None"
      by (blast dest: create_certificate_changes)+
    moreover from Cons.prems(2) have "fs (re_tmp_name (rq_render r)) = None" by simp
    ultimately have "may_leak r \<and> re_tmp_name (rq_render r) = q" by (auto simp: may_leak_def)
    then show ?thesis by auto
  next
    case False
    from Cons.prems(1) have "distinct (map (re_tmp_name \<circ> rq_render) rs)" by (simp add: comp_def)
    from Cons.IH [OF this fresh' False] show ?thesis by auto
  qed
qed

text \<open>
  C20 (functional).  On Windows the configured executable is the first of the four
  installation paths that exists; on other systems, and when none exists, pdfkit is
  left to find the executable on the \<open>PATH\<close>.
\<close>

theorem setup_config_first_existing:
  "setup_wkhtmltopdf_config sys u ex = Some p \<longleftrightarrow>
     sys = Windows \<and> (\<exists>i < 4. wk_candidate_paths u ! i = p \<and> ex p \<and> (\<forall>j < i. \<not> ex (wk_candidate_paths u ! j)))"
proof -
  have "length (wk_candidate_paths u) = 4" by (simp add: wk_candidate_paths_def)
  then show ?thesis by (simp add: setup_wkhtmltopdf_config_def find_first_Some_iff)
qed

lemma example_compose_ok: "\<exists>html. create_certificate_html example_env [] = Inr html"
  by (simp add: create_certificate_html_def cert_locals_def dict_get_Cons example_status_styles Let_def)

theorem create_certificate_clean_witness:
  "create_certificate example_generator example_env example_render [] Map.empty = (Inr ''%PDF-1.4'', Map.empty)"
proof -
  obtain html where c: "create_certificate_html example_env [] = Inr html" using example_compose_ok by blast
  have w: "re_write example_render = None" and u: "re_unlink example_render = None"
    and f: "Map.empty (re_tmp_name example_render) = (None :: string option)"
    by (simp_all add: example_render_def)
  show ?thesis using create_certificate_clean [OF c w u f] by (simp add: example_render_def)
qed

theorem create_certificate_unlink_masks_witness:
  "\<exists>html. create_certificate_html example_env [] = Inr html
     \<and> create_certificate example_generator example_env
           (example_render\<lparr>re_unlink := Some (OSError ''[Errno 13] Permission denied'')\<rparr>) [] Map.empty
         = (Inl (OSError ''[Errno 13] Permission denied''), [''/tmp/tmpk2j4x9.html'' \<mapsto> html])"
proof -
  obtain html where c: "create_certificate_html example_env [] = Inr html" using example_compose_ok by blast
  let ?r = "example_render\<lparr>re_unlink := Some (OSError ''[Errno 13] Permission denied'')\<rparr>"
  have w: "re_write ?r = None" and u: "re_unlink ?r = Some (OSError ''[Errno 13] Permission denied'')"
    by (simp_all add: example_render_def)
  show ?thesis using c create_certificate_unlink_masks [OF c w u] by (simp add: example_render_def)
qed

theorem create_certificate_write_leaks_witness:
  "create_certificate example_generator example_env
      (example_render\<lparr>re_write := Some (OSError ''[Errno 28] No space left on device'')\<rparr>) [] Map.empty
   = (Inl (OSError ''[Errno 28] No space left on device''), [''/tmp/tmpk2j4x9.html'' \<mapsto> []])"
proof -
  obtain html where c: "create_certificate_html example_env [] = Inr html" using example_compose_ok by blast
  let ?r = "example_render\<lparr>re_write := Some (OSError ''[Errno 28] No space left on device'')\<rparr>"
  have w: "re_write ?r = Some (OSError ''[Errno 28] No space left on device'')"
    by (simp add: example_render_def)
  show ?thesis using create_certificate_write_leaks [OF c w] by (simp add: example_render_def)
qed

theorem serve_changes_only_leaked_witness:
  "\<exists>r \<in> set [\<lparr>rq_compose = example_env,
        rq_render = example_render\<lparr>re_write := Some (OSError ''[Errno 28] No space left on device'')\<rparr>,
        rq_data = []\<rparr>].
     may_leak r \<and> re_tmp_name (rq_render r) = ''/tmp/tmpk2j4x9.html''"
proof -
  let ?r = "example_render\<lparr>re_write := Some (OSError ''[Errno 28] No space left on device'')\<rparr>"
  let ?rs = "[\<lparr>rq_compose = example_env, rq_render = ?r, rq_data = []\<rparr>]"
  obtain html where c: "create_certificate_html example_env [] = Inr html" using example_compose_ok by blast
  have d: "distinct (map (re_tmp_name \<circ> rq_render) ?rs)" by simp
  have f: "\<forall>r \<in> set ?rs. (Map.empty :: files) (re_tmp_name (rq_render r)) = None" by simp
  have "serve example_generator Map.empty ?rs ''/tmp/tmpk2j4x9.html'' = Some []"
    using c by (simp add: create_certificate_write_error example_render_def)
  then have ch: "serve example_generator Map.empty ?rs ''/tmp/tmpk2j4x9.html''
      \<noteq> (Map.empty :: files) ''/tmp/tmpk2j4x9.html''" by simp
  show ?thesis by (rule serve_changes_only_leaked [OF d f ch])
qed

theorem setup_config_first_existing_witness:
  "setup_wkhtmltopdf_config Windows ''ann'' (\<lambda>p. p = wk_candidate_paths ''ann'' ! 1)
   = Some (wk_candidate_paths ''ann'' ! 1)"
proof -
  have "wk_candidate_paths ''ann'' ! 0 \<noteq> wk_candidate_paths ''ann'' ! 1"
    by (simp add: wk_candidate_paths_def win_path_def)
  then have "\<forall>j < 1. \<not> (wk_candidate_paths ''ann'' ! j = wk_candidate_paths ''ann'' ! 1)" by simp
  then have "Windows = Windows \<and> (\<exists>i < 4. wk_candidate_paths ''ann'' ! i = wk_candidate_paths ''ann'' ! 1
      \<and> wk_candidate_paths ''ann'' ! 1 = wk_candidate_paths ''ann'' ! 1
      \<and> (\<forall>j < i. \<not> (wk_candidate_paths ''ann'' ! j = wk_candidate_paths ''ann'' ! 1)))"
    by (intro conjI refl exI [of _ 1]) simp_all
  then show ?thesis by (simp only: setup_config_first_existing)
qed

end
