(* ===== verification/Base64.thy ===== *)
theory Base64
  imports Prelude
begin

text \<open>
  \<open>base64.b64encode\<close> as \<open>generate_certificate\<close> applies it to the PDF bytes
  (src/app.py line 812), and the standard decoder a client applies to the
  \<open>pdf_base64\<close> field (RFC 4648, with padding).  Bytes are \<^typ>\<open>char\<close>s.  Each
  group of three bytes, a 24-bit number, is written as four 6-bit digits; a final group
  of one or two bytes is zero-filled and padded with \<open>=\<close>.  The round trip
  \<open>b64_decode (b64_encode bs) = Some bs\<close> is what lets a client recover the PDF.
\<close>

definition b64_alphabet :: string where
  "b64_alphabet = ''ABCDEFGHIJKLMNOPQRSTUVWXYZabcdefghijklmnopqrstuvwxyz0123456789+/''"

definition b64_char :: "nat \<Rightarrow> char" where
  "b64_char i = b64_alphabet ! i"

definition sextets :: "nat \<Rightarrow> nat list" where
  "sextets n = [n div 262144 mod 64, n div 4096 mod 64, n div 64 mod 64, n mod 64]"

fun b64_encode :: "string \<Rightarrow> string" where
  "b64_encode (a # b # c # rest) =
     map b64_char (sextets (of_char a * 65536 + of_char b * 256 + of_char c)) @ b64_encode rest"
| "b64_encode [a, b] = map b64_char (take 3 (sextets (of_char a * 65536 + of_char b * 256))) @ ''=''"
| "b64_encode [a] = map b64_char (take 2 (sextets (of_char a * 65536))) @ ''==''"
| "b64_encode [] = []"

fun idx_of :: "char \<Rightarrow> string \<Rightarrow> nat option" where
  "idx_of c [] = None"
| "idx_of c (d # ds) = (if c = d then Some 0 else map_option Suc (idx_of c ds))"

definition b64_val :: "char \<Rightarrow> nat option" where
  "b64_val c = idx_of c b64_alphabet"

definition bytes_of :: "nat \<Rightarrow> string" where
  "bytes_of n = [char_of (n div 65536 mod 256), char_of (n div 256 mod 256), char_of (n mod 256)]"

definition pad_char :: char where
  "pad_char = CHR ''=''"

text \<open>One group of four digits: three bytes, or fewer before padding.\<close>

definition decode_group :: "char \<Rightarrow> char \<Rightarrow> char \<Rightarrow> char \<Rightarrow> string option" where
  "decode_group w x y z =
     (if y = pad_char \<and> z = pad_char then
        (case (b64_val w, b64_val x) of
           (Some i, Some j) \<Rightarrow> Some [char_of ((i * 64 + j) div 16)]
         | _ \<Rightarrow> None)
      else if z = pad_char then
        (case (b64_val w, b64_val x, b64_val y) of
           (Some i, Some j, Some k) \<Rightarrow> Some (take 2 (bytes_of (i * 262144 + j * 4096 + k * 64)))
         | _ \<Rightarrow> None)
      else
        (case (b64_val w, b64_val x, b64_val y, b64_val z) of
           (Some i, Some j, Some k, Some l) \<Rightarrow> Some (bytes_of (i * 262144 + j * 4096 + k * 64 + l))
         | _ \<Rightarrow> None))"

definition full_group :: "char \<Rightarrow> char \<Rightarrow> char \<Rightarrow> char \<Rightarrow> string option" where
  "full_group w x y z =
     (case (b64_val w, b64_val x, b64_val y, b64_val z) of
        (Some i, Some j, Some k, Some l) \<Rightarrow> Some (bytes_of (i * 262144 + j * 4096 + k * 64 + l))
      | _ \<Rightarrow> None)"

fun b64_decode :: "string \<Rightarrow> string option" where
  "b64_decode [] = Some []"
| "b64_decode [w, x, y, z] = decode_group w x y z"
| "b64_decode (w # x # y # z # rest) =
     (case full_group w x y z of
        None \<Rightarrow> None
      | Some bs \<Rightarrow> map_option (\<lambda>r. bs @ r) (b64_decode rest))"
| "b64_decode _ = None"

subsection \<open>Facts\<close>

lemma idx_of_nth: "distinct ds \<Longrightarrow> i < length ds \<Longrightarrow> idx_of (ds ! i) ds = Some i"
proof (induction ds arbitrary: i)
  case Nil
  then show ?case by simp
next
  case (Cons d ds)
  show ?case
  proof (cases i)
    case 0
    then show ?thesis by simp
  next
    case (Suc k)
    with Cons.prems have "ds ! k \<noteq> d" and "k < length ds" by auto
    with Cons.prems Cons.IH [of k] Suc show ?thesis by simp
  qed
qed

lemma b64_alphabet_props: "distinct b64_alphabet" "length b64_alphabet = 64" "pad_char \<notin> set b64_alphabet"
  by (simp_all add: b64_alphabet_def pad_char_def)

lemma b64_val_char: "i < 64 \<Longrightarrow> b64_val (b64_char i) = Some i"
  using idx_of_nth [of b64_alphabet i] b64_alphabet_props by (simp add: b64_val_def b64_char_def)

lemma b64_char_not_pad: "i < 64 \<Longrightarrow> b64_char i \<noteq> pad_char"
  using b64_alphabet_props by (metis b64_char_def nth_mem)

lemma byte_bound: "of_char (c :: char) < (256::nat)"
  by (rule nat_of_char_less_256)

lemma char_of_of_char_mod: "char_of (of_char c mod 256 :: nat) = c"
  using byte_bound [of c] by simp

text \<open>The arithmetic of one group.\<close>

lemma mod_split: "(n::nat) div b mod c * b + n mod b = n mod (b * c)"
  using mod_mult2_eq [of n b c] by (simp add: mult.commute)

lemma sextets_recombine:
  "(n::nat) < 16777216 \<Longrightarrow>
     n div 262144 mod 64 * 262144 + n div 4096 mod 64 * 4096 + n div 64 mod 64 * 64 + n mod 64 = n"
proof -
  assume n: "n < 16777216"
  have "n div 64 mod 64 * 64 + n mod 64 = n mod 4096" using mod_split [of n 64 64] by simp
  moreover have "n div 4096 mod 64 * 4096 + n mod 4096 = n mod 262144" using mod_split [of n 4096 64] by simp
  moreover have "n div 262144 mod 64 * 262144 + n mod 262144 = n mod 16777216" using mod_split [of n 262144 64] by simp
  moreover have "n mod 16777216 = n" using n by simp
  ultimately show ?thesis by (simp add: add.assoc)
qed

lemma bytes_of_group:
  assumes "a < 256" "b < 256" "c < (256::nat)"
  shows "bytes_of (a * 65536 + b * 256 + c) = [char_of a, char_of b, char_of c]"
proof -
  have x: "b * 256 + c < 65536" using assms by simp
  have "(a * 65536 + b * 256 + c) div 65536 = a" using x by simp
  moreover have "(a * 65536 + b * 256 + c) div 256 mod 256 = b"
  proof -
    have "a * 65536 + b * 256 + c = c + (a * 256 + b) * 256" by simp
    then have "(a * 65536 + b * 256 + c) div 256 = b + a * 256" using assms by simp
    then show ?thesis using assms by simp
  qed
  moreover have "(a * 65536 + b * 256 + c) mod 256 = c"
  proof -
    have e: "a * 65536 + b * 256 + c = c + (a * 256 + b) * 256" by simp
    have "(a * 65536 + b * 256 + c) mod 256 = (c + (a * 256 + b) * 256) mod 256" using e by (rule arg_cong)
    also have "\<dots> = c mod 256" by (rule mod_mult_self1)
    also have "\<dots> = c" using assms by simp
    finally show ?thesis .
  qed
  ultimately show ?thesis using assms by (simp add: bytes_of_def)
qed

lemma b64_decode_group4:
  "b64_decode (w # x # y # z # rest) =
     (if rest = [] then decode_group w x y z
      else case full_group w x y z of None \<Rightarrow> None | Some bs \<Rightarrow> map_option (\<lambda>r. bs @ r) (b64_decode rest))"
  by (cases rest) auto

lemma group_value_bound: "of_char a * 65536 + of_char b * 256 + of_char (c::char) < (16777216::nat)"
  using byte_bound [of a] byte_bound [of b] byte_bound [of c] by linarith

lemma b64_val_sextet: "b64_val (b64_char (n mod 64)) = Some (n mod 64)"
  by (simp add: b64_val_char)

lemma full_group_chars:
  "i < 64 \<Longrightarrow> j < 64 \<Longrightarrow> k < 64 \<Longrightarrow> l < 64 \<Longrightarrow>
     full_group (b64_char i) (b64_char j) (b64_char k) (b64_char l) = Some (bytes_of (i * 262144 + j * 4096 + k * 64 + l))"
  by (simp add: full_group_def b64_val_char)

lemma decode_group_chars:
  "i < 64 \<Longrightarrow> j < 64 \<Longrightarrow> k < 64 \<Longrightarrow> l < 64 \<Longrightarrow>
     decode_group (b64_char i) (b64_char j) (b64_char k) (b64_char l) = Some (bytes_of (i * 262144 + j * 4096 + k * 64 + l))"
  "i < 64 \<Longrightarrow> j < 64 \<Longrightarrow> k < 64 \<Longrightarrow>
     decode_group (b64_char i) (b64_char j) (b64_char k) pad_char = Some (take 2 (bytes_of (i * 262144 + j * 4096 + k * 64)))"
  "i < 64 \<Longrightarrow> j < 64 \<Longrightarrow>
     decode_group (b64_char i) (b64_char j) pad_char pad_char = Some [char_of ((i * 64 + j) div 16)]"
  by (simp_all add: decode_group_def b64_val_char b64_char_not_pad)

lemma decode_three:
  fixes a b c :: char
  defines "n \<equiv> of_char a * 65536 + of_char b * 256 + of_char c :: nat"
  shows "full_group (b64_char (n div 262144 mod 64)) (b64_char (n div 4096 mod 64))
           (b64_char (n div 64 mod 64)) (b64_char (n mod 64)) = Some [a, b, c]"
    and "decode_group (b64_char (n div 262144 mod 64)) (b64_char (n div 4096 mod 64))
           (b64_char (n div 64 mod 64)) (b64_char (n mod 64)) = Some [a, b, c]"
proof -
  have r: "n div 262144 mod 64 * 262144 + n div 4096 mod 64 * 4096 + n div 64 mod 64 * 64 + n mod 64 = n"
    unfolding n_def by (rule sextets_recombine [OF group_value_bound])
  have bytes: "bytes_of n = [a, b, c]"
    unfolding n_def using byte_bound by (simp add: bytes_of_group)
  show "full_group (b64_char (n div 262144 mod 64)) (b64_char (n div 4096 mod 64))
           (b64_char (n div 64 mod 64)) (b64_char (n mod 64)) = Some [a, b, c]"
    by (simp only: full_group_chars mod_less_divisor zero_less_numeral r bytes)
  show "decode_group (b64_char (n div 262144 mod 64)) (b64_char (n div 4096 mod 64))
           (b64_char (n div 64 mod 64)) (b64_char (n mod 64)) = Some [a, b, c]"
    by (simp only: decode_group_chars(1) mod_less_divisor zero_less_numeral r bytes)
qed

lemma decode_two:
  fixes a b :: char
  defines "n \<equiv> of_char a * 65536 + of_char b * 256 :: nat"
  shows "decode_group (b64_char (n div 262144 mod 64)) (b64_char (n div 4096 mod 64))
           (b64_char (n div 64 mod 64)) pad_char = Some [a, b]"
proof -
  have "n < 16777216" using byte_bound [of a] byte_bound [of b] unfolding n_def by linarith
  then have r: "n div 262144 mod 64 * 262144 + n div 4096 mod 64 * 4096 + n div 64 mod 64 * 64 + n mod 64 = n"
    by (rule sextets_recombine)
  have "n = (of_char a * 1024 + of_char b * 4) * 64" unfolding n_def by simp
  then have z: "n mod 64 = 0" by (metis mod_mult_self2_is_0)
  have r2: "n div 262144 mod 64 * 262144 + n div 4096 mod 64 * 4096 + n div 64 mod 64 * 64 = n"
    using r unfolding z add_0_right .
  have "bytes_of n = [a, b, char_of (0::nat)]"
    using bytes_of_group [of "of_char a" "of_char b" 0] byte_bound unfolding n_def by simp
  then show ?thesis by (simp only: decode_group_chars(2) mod_less_divisor zero_less_numeral r2) simp
qed

lemma decode_one:
  fixes a :: char
  defines "n \<equiv> of_char a * 65536 :: nat"
  shows "decode_group (b64_char (n div 262144 mod 64)) (b64_char (n div 4096 mod 64)) pad_char pad_char = Some [a]"
proof -
  have "n < 16777216" using byte_bound [of a] unfolding n_def by linarith
  then have "n div 262144 < 64" by simp
  then have "n div 262144 mod 64 = n div 4096 div 64" by (simp add: div_mult2_eq)
  then have h: "n div 262144 mod 64 * 64 + n div 4096 mod 64 = n div 4096" by simp
  have n4: "n div 4096 = of_char a * 16" unfolding n_def by simp
  have "(n div 262144 mod 64 * 64 + n div 4096 mod 64) div 16 = of_char a * 16 div 16"
    by (subst h) (simp only: n4)
  also have "\<dots> = of_char a" by simp
  finally have "(n div 262144 mod 64 * 64 + n div 4096 mod 64) div 16 = of_char a" .
  then show ?thesis by (simp only: decode_group_chars(3) mod_less_divisor zero_less_numeral) simp
qed

lemma b64_encode_Nil_iff: "b64_encode bs = [] \<longleftrightarrow> bs = []"
  by (induction bs rule: b64_encode.induct) (simp_all add: sextets_def)

text \<open>Every byte string is recovered from its encoding.\<close>

lemma b64_roundtrip: "b64_decode (b64_encode bs) = Some bs"
proof (induction bs rule: b64_encode.induct)
  case (1 a b c rest)
  then show ?case
    using decode_three [of a b c] by (simp add: sextets_def b64_decode_group4 b64_encode_Nil_iff)
next
  case (2 a b)
  then show ?case
    using decode_two [of a b] by (simp add: sextets_def pad_char_def)
next
  case (3 a)
  then show ?case
    using decode_one [of a] by (simp add: sextets_def pad_char_def)
next
  case 4
  then show ?case by simp
qed

lemma ascii_b64_alphabet: "ascii b64_alphabet"
  by (simp add: ascii_def b64_alphabet_def)

lemma ascii_b64_char: "i < 64 \<Longrightarrow> ascii [b64_char i]"
  using ascii_b64_alphabet b64_alphabet_props(2)
  by (simp add: ascii_def b64_char_def list_all_iff)

lemma ascii_pad: "ascii ''=''"
  by (simp add: ascii_def)

lemma div3_step: "Suc (Suc (Suc (4 * (Suc (Suc n) div 3)))) + 1 = 4 * ((5 + n) div 3)"
proof -
  have "(5 + n) div 3 = (Suc (Suc n) + 3) div 3" by simp
  also have "\<dots> = Suc (Suc n) div 3 + 1" by (rule div_add_self2) simp
  finally show ?thesis by simp
qed

text \<open>
  C35 (bounds).  The encoding of \<open>n\<close> bytes has \<open>4 * ceil(n / 3)\<close> characters,
  all ASCII, so the \<open>.decode('utf-8')\<close> applied to it at line 812 never raises.
\<close>

theorem b64_encode_ascii_length:
  "length (b64_encode bs) = 4 * ((length bs + 2) div 3) \<and> ascii (b64_encode bs)"
proof (induction bs rule: b64_encode.induct)
  case (1 a b c rest)
  then show ?case using ascii_b64_char div3_step [of "length rest"] by (simp add: sextets_def)
next
  case (2 a b)
  then show ?case using ascii_b64_char by (simp add: sextets_def ascii_def)
next
  case (3 a)
  then show ?case using ascii_b64_char by (simp add: sextets_def ascii_def)
qed (simp add: ascii_def)

end
