(* ===== verification/Api.thy ===== *)
theory Api
  imports Pipeline Base64
begin

text \<open>
  The five Flask handlers (src/app.py lines 802--896).  A request is what the handler
  reads: the outcome of \<open>request.get_json()\<close> (a JSON body, or the werkzeug exception
  it raises on a wrong content type or malformed JSON), the inputs of the composer and
  of the render pipeline, and the handler's own call of \<open>datetime.now()\<close>.  A
  handler returns the response it builds (\<open>jsonify\<close> with a status, \<open>send_file\<close>,
  or an exception it does not catch, which Flask turns into an error page) and the
  file system after the request.  \<open>route\<close> dispatches on the endpoint and
  \<open>serve_api\<close> runs a sequence of requests against one file system.
\<close>

text \<open>A JSON body: an object, an array (of scalars; nesting is not modelled) or a scalar.\<close>

datatype jbody = JObject pydict | JArray "pyval list" | JScalar pyval

datatype response =
    JsonResp nat pydict              \<comment> \<open>\<open>jsonify(...)\<close> and its status code\<close>
  | FileResp string string string    \<comment> \<open>\<open>send_file\<close>: bytes, \<open>download_name\<close>, \<open>mimetype\<close>\<close>
  | Uncaught py_exc                  \<comment> \<open>an exception the handler lets through\<close>

datatype endpoint = Generate | GenerateFile | Preview | Health | Test

record api_env =
  ae_json :: "py_exc + jbody"        \<comment> \<open>\<open>request.get_json()\<close>\<close>
  ae_compose :: compose_env          \<comment> \<open>the clock and token inside \<open>create_certificate_html\<close>\<close>
  ae_render :: render_env            \<comment> \<open>the temporary file and the renderer\<close>
  ae_now :: datetime                 \<comment> \<open>the handler's own \<open>datetime.now()\<close>\<close>

subsection \<open>Python operations on a body\<close>

text \<open>\<open>not data\<close>: empty objects, arrays and strings, \<open>null\<close>, \<open>false\<close> and \<open>0\<close> are false.\<close>

fun body_truthy :: "jbody \<Rightarrow> bool" where
  "body_truthy (JObject d) = (d \<noteq> [])"
| "body_truthy (JArray xs) = (xs \<noteq> [])"
| "body_truthy (JScalar v) = py_truthy v"

fun body_type_name :: "jbody \<Rightarrow> string" where
  "body_type_name (JObject d) = ''dict''"
| "body_type_name (JArray xs) = ''list''"
| "body_type_name (JScalar v) = py_type_name v"

text \<open>\<open>len(s)\<close> of a str counts code points: the bytes that are not continuation bytes.\<close>

definition utf8_len :: "string \<Rightarrow> nat" where
  "utf8_len s = length (filter (\<lambda>c. \<not> utf8_cont c) s)"

fun py_len :: "jbody \<Rightarrow> py_exc + nat" where
  "py_len (JObject d) = Inr (length d)"
| "py_len (JArray xs) = Inr (length xs)"
| "py_len (JScalar (PyStr s)) = Inr (utf8_len s)"
| "py_len (JScalar v) =
     Inl (TypeError (''object of type '' @ CHR 0x27 # py_type_name v @ CHR 0x27 # '' has no len()''))"

text \<open>The first \<open>data.get\<close> of \<open>create_certificate_html\<close> (line 88) on the body.\<close>

fun body_dict :: "jbody \<Rightarrow> py_exc + pydict" where
  "body_dict (JObject d) = Inr d"
| "body_dict b = Inl (AttributeError (body_type_name b) ''get'')"

subsection \<open>Responses\<close>

definition no_data_resp :: response where
  "no_data_resp = JsonResp 400 [(''error'', PyStr ''No data provided'')]"

definition fail_resp :: "string \<Rightarrow> py_exc \<Rightarrow> response" where
  "fail_resp what e = JsonResp 500 [(''success'', PyBool False), (''error'', PyStr (what @ exc_message e))]"

definition gen_failed :: string where
  "gen_failed = ''Failed to generate certificate: ''"

text \<open>\<open>f"certificate_{data.get('certificate_id', 'unknown')}"\<close>, lines 818 and 840.\<close>

definition file_stem :: "pydict \<Rightarrow> string" where
  "file_stem data = ''certificate_'' @ py_format (dict_get data ''certificate_id'' (PyStr ''unknown''))"

subsection \<open>The handlers\<close>

text \<open>
  The checks both generating handlers make before rendering, inside their \<open>try\<close>:
  \<open>get_json\<close>, \<open>if not data\<close> (400), \<open>len(data)\<close> in the log message, and the
  \<open>data.get\<close> that \<open>create_certificate\<close> reaches first.  \<open>Inl\<close> is the response
  the handler returns at once.
\<close>

definition gen_body :: "api_env \<Rightarrow> response + pydict" where
  "gen_body env =
     (case ae_json env of
        Inl e \<Rightarrow> Inl (fail_resp gen_failed e)
      | Inr body \<Rightarrow>
          if \<not> body_truthy body then Inl no_data_resp
          else (case py_len body of
                  Inl e \<Rightarrow> Inl (fail_resp gen_failed e)
                | Inr n \<Rightarrow> (case body_dict body of
                             Inl e \<Rightarrow> Inl (fail_resp gen_failed e)
                           | Inr data \<Rightarrow> Inr data)))"

definition generate_certificate :: "generator \<Rightarrow> api_env \<Rightarrow> files \<Rightarrow> response \<times> files" where
  "generate_certificate g env fs =
     (case gen_body env of
        Inl r \<Rightarrow> (r, fs)
      | Inr data \<Rightarrow>
          (case create_certificate g (ae_compose env) (ae_render env) data fs of
             (Inl e, fs') \<Rightarrow> (fail_resp gen_failed e, fs')
           | (Inr pdf, fs') \<Rightarrow>
               (JsonResp 200
                  [(''success'', PyBool True),
                   (''message'', PyStr ''Professional certificate generated successfully''),
                   (''pdf_base64'', PyStr (b64_encode pdf)),
                   (''filename'', PyStr (file_stem data @ ''.pdf'')),
                   (''generated_at'', PyStr (isoformat (ae_now env)))], fs')))"

definition generate_certificate_file :: "generator \<Rightarrow> api_env \<Rightarrow> files \<Rightarrow> response \<times> files" where
  "generate_certificate_file g env fs =
     (case gen_body env of
        Inl r \<Rightarrow> (r, fs)
      | Inr data \<Rightarrow>
          (case create_certificate g (ae_compose env) (ae_render env) data fs of
             (Inl e, fs') \<Rightarrow> (fail_resp gen_failed e, fs')
           | (Inr pdf, fs') \<Rightarrow>
               (FileResp pdf (file_stem data @ ''_'' @ strftime_compact (ae_now env) @ ''.pdf'')
                  ''application/pdf'', fs')))"

text \<open>\<open>preview_certificate\<close> composes only; it does not call \<open>len\<close>.\<close>

definition preview_certificate :: "api_env \<Rightarrow> response" where
  "preview_certificate env =
     (case ae_json env of
        Inl e \<Rightarrow> fail_resp ''Failed to generate preview: '' e
      | Inr body \<Rightarrow>
          if \<not> body_truthy body then no_data_resp
          else (case body_dict body of
                  Inl e \<Rightarrow> fail_resp ''Failed to generate preview: '' e
                | Inr data \<Rightarrow>
                    (case create_certificate_html (ae_compose env) data of
                       Inl e \<Rightarrow> fail_resp ''Failed to generate preview: '' e
                     | Inr html \<Rightarrow>
                         JsonResp 200 [(''success'', PyBool True), (''html_content'', PyStr html),
                           (''message'', PyStr ''Professional certificate preview generated'')])))"

definition health_check :: "api_env \<Rightarrow> response" where
  "health_check env =
     JsonResp 200 [(''status'', PyStr ''healthy''),
       (''service'', PyStr ''Professional Certificate Generator (wkhtmltopdf)''),
       (''timestamp'', PyStr (isoformat (ae_now env)))]"

text \<open>\<open>test_endpoint\<close> has no \<open>try\<close>: its exceptions reach Flask.\<close>

definition test_endpoint :: "api_env \<Rightarrow> response" where
  "test_endpoint env =
     (case ae_json env of
        Inl e \<Rightarrow> Uncaught e
      | Inr body \<Rightarrow>
          (case (if body_truthy body then py_len body else Inr 0) of
             Inl e \<Rightarrow> Uncaught e
           | Inr n \<Rightarrow>
               JsonResp 200 [(''message'', PyStr ''Professional Certificate API is working''),
                 (''received_params'', PyInt (int n)), (''timestamp'', PyStr (isoformat (ae_now env)))]))"

text \<open>Flask's answer to an uncaught exception: an HTTP exception's own code, else 500.\<close>

fun uncaught_status :: "py_exc \<Rightarrow> nat" where
  "uncaught_status (HTTPException c n d) = c"
| "uncaught_status e = 500"

fun route :: "generator \<Rightarrow> endpoint \<Rightarrow> api_env \<Rightarrow> files \<Rightarrow> response \<times> files" where
  "route g Generate env fs = generate_certificate g env fs"
| "route g GenerateFile env fs = generate_certificate_file g env fs"
| "route g Preview env fs = (preview_certificate env, fs)"
| "route g Health env fs = (health_check env, fs)"
| "route g Test env fs = (test_endpoint env, fs)"

fun serve_api :: "generator \<Rightarrow> files \<Rightarrow> (endpoint \<times> api_env) list \<Rightarrow> response list \<times> files" where
  "serve_api g fs [] = ([], fs)"
| "serve_api g fs ((ep, env) # rs) =
     (let (r, fs') = route g ep env fs; (out, fs'') = serve_api g fs' rs in (r # out, fs''))"

text \<open>A request is clean when its temporary name is fresh and neither write nor unlink raises.\<close>

definition clean_env :: "files \<Rightarrow> api_env \<Rightarrow> bool" where
  "clean_env fs env \<longleftrightarrow> re_write (ae_render env) = None \<and> re_unlink (ae_render env) = None
     \<and> fs (re_tmp_name (ae_render env)) = None"

text \<open>Concrete requests for the witnesses, and the input of the specification's end-to-end test.\<close>

definition example_request :: "jbody \<Rightarrow> api_env" where
  "example_request b = \<lparr>ae_json = Inr b, ae_compose = example_env, ae_render = example_render,
     ae_now = ce_now example_env\<rparr>"

definition spec_example :: pydict where
  "spec_example = [(''certificate_id'', PyStr ''CERT-TEST-1''), (''final_status'', PyStr ''PASSED''),
     (''device_type'', PyStr ''SSD'')]"

subsection \<open>Facts\<close>

lemma gen_body_Inr: "gen_body env = Inr d \<longleftrightarrow> ae_json env = Inr (JObject d) \<and> d \<noteq> []"
proof
  assume g: "gen_body env = Inr d"
  show "ae_json env = Inr (JObject d) \<and> d \<noteq> []"
  proof (cases "ae_json env")
    case (Inl e)
    with g show ?thesis by (simp add: gen_body_def)
  next
    case (Inr b)
    with g show ?thesis
      by (cases b) (auto simp: gen_body_def split: if_splits sum.splits)
  qed
qed (simp add: gen_body_def)

lemma gen_body_Inl_files:
  "gen_body env = Inl r \<Longrightarrow> generate_certificate g env fs = (r, fs) \<and> generate_certificate_file g env fs = (r, fs)"
  by (simp add: generate_certificate_def generate_certificate_file_def)

lemma create_certificate_clean_env:
  "clean_env fs env \<Longrightarrow> create_certificate_html (ae_compose env) data = Inr html \<Longrightarrow>
     create_certificate g (ae_compose env) (ae_render env) data fs
       = (re_render (ae_render env) (gen_config g) (gen_options g) html, fs)"
  by (simp add: clean_env_def create_certificate_written fun_upd_idem)

lemma create_certificate_clean_files:
  "clean_env fs env \<Longrightarrow> snd (create_certificate g (ae_compose env) (ae_render env) data fs) = fs"
  by (simp add: clean_env_def create_certificate_no_leak)

lemma generate_Inr:
  "gen_body env = Inr data \<Longrightarrow> create_certificate g (ae_compose env) (ae_render env) data fs = (Inr pdf, fs') \<Longrightarrow>
     generate_certificate g env fs =
       (JsonResp 200
          [(''success'', PyBool True),
           (''message'', PyStr ''Professional certificate generated successfully''),
           (''pdf_base64'', PyStr (b64_encode pdf)),
           (''filename'', PyStr (file_stem data @ ''.pdf'')),
           (''generated_at'', PyStr (isoformat (ae_now env)))], fs')
   \<and> generate_certificate_file g env fs =
       (FileResp pdf (file_stem data @ ''_'' @ strftime_compact (ae_now env) @ ''.pdf'') ''application/pdf'', fs')"
  by (simp add: generate_certificate_def generate_certificate_file_def)

lemma generate_Inl:
  "gen_body env = Inr data \<Longrightarrow> create_certificate g (ae_compose env) (ae_render env) data fs = (Inl e, fs') \<Longrightarrow>
     generate_certificate g env fs = (fail_resp gen_failed e, fs')
   \<and> generate_certificate_file g env fs = (fail_resp gen_failed e, fs')"
  by (simp add: generate_certificate_def generate_certificate_file_def)

lemma gen_body_Inl: "gen_body env = Inl r \<Longrightarrow> r = no_data_resp \<or> (\<exists>e. r = fail_resp gen_failed e)"
  by (auto simp: gen_body_def split: sum.splits if_splits)

lemma gen_body_Inl_status: "gen_body env = Inl r \<Longrightarrow> \<exists>c kv. r = JsonResp c kv \<and> c \<noteq> 200"
  using gen_body_Inl [of env r] by (auto simp: no_data_resp_def fail_resp_def)

lemma generate_file_FileResp:
  "generate_certificate_file g env fs = (FileResp pdf name mime, fs') \<Longrightarrow>
     \<exists>data. gen_body env = Inr data \<and> create_certificate g (ae_compose env) (ae_render env) data fs = (Inr pdf, fs')
       \<and> name = file_stem data @ ''_'' @ strftime_compact (ae_now env) @ ''.pdf''"
  by (auto simp: generate_certificate_file_def fail_resp_def split: sum.splits prod.splits dest: gen_body_Inl_status)

lemma generate_JsonResp_200:
  "generate_certificate g env fs = (JsonResp 200 kv, fs') \<Longrightarrow>
     \<exists>data pdf. gen_body env = Inr data \<and> create_certificate g (ae_compose env) (ae_render env) data fs = (Inr pdf, fs')
       \<and> kv = [(''success'', PyBool True),
           (''message'', PyStr ''Professional certificate generated successfully''),
           (''pdf_base64'', PyStr (b64_encode pdf)),
           (''filename'', PyStr (file_stem data @ ''.pdf'')),
           (''generated_at'', PyStr (isoformat (ae_now env)))]"
  by (auto simp: generate_certificate_def fail_resp_def split: sum.splits prod.splits dest: gen_body_Inl_status)

lemma route_clean_files:
  assumes c: "clean_env fs env"
  shows "snd (route g ep env fs) = fs"
proof -
  have gen: "\<exists>r. create_certificate g (ae_compose env) (ae_render env) data fs = (r, fs)" for data
    using create_certificate_clean_files [OF c, of g data] by (metis prod.collapse)
  show ?thesis
  proof (cases "gen_body env")
    case (Inl r)
    then show ?thesis by (cases ep) (simp_all add: generate_certificate_def generate_certificate_file_def)
  next
    case (Inr data)
    from gen [of data] obtain r where r: "create_certificate g (ae_compose env) (ae_render env) data fs = (r, fs)" ..
    with Inr show ?thesis
      by (cases ep; cases r) (simp_all add: generate_certificate_def generate_certificate_file_def)
  qed
qed

lemma compose_spec_example:
  "\<exists>html. create_certificate_html cenv spec_example = Inr html"
proof -
  have "\<exists>ctx. cert_locals cenv spec_example = Inr ctx"
    by (simp add: cert_locals_succeeds_iff resolved_status_def resolved_issue_date_def resolved_cert_id_def
        spec_example_def dict_get_Cons)
  then show ?thesis by (auto simp: create_certificate_html_Inr)
qed

lemma example_compose_device:
  "\<exists>html. create_certificate_html example_env [(''device_type'', PyStr ''SSD'')] = Inr html"
  by (simp add: create_certificate_html_def cert_locals_def dict_get_Cons example_status_styles Let_def)

lemma example_request_clean: "clean_env Map.empty (example_request b)"
  by (simp add: clean_env_def example_request_def example_render_def)

lemma example_request_simps [simp]:
  "ae_json (example_request b) = Inr b" "ae_compose (example_request b) = example_env"
  "ae_render (example_request b) = example_render"
  by (simp_all add: example_request_def)

subsection \<open>Properties\<close>

text \<open>
  C21 (functional).  When the body is a non-empty JSON object, composition succeeds
  and the render pipeline runs cleanly, \<open>generate_certificate\<close> answers 200 with
  the base64 encoding of exactly the renderer's bytes, the file name from the
  attributes and the handler's timestamp, and leaves the file system as it was.
\<close>

theorem generate_success:
  "ae_json env = Inr (JObject data) \<Longrightarrow> data \<noteq> [] \<Longrightarrow> clean_env fs env \<Longrightarrow>
   create_certificate_html (ae_compose env) data = Inr html \<Longrightarrow>
   re_render (ae_render env) (gen_config g) (gen_options g) html = Inr pdf \<Longrightarrow>
     generate_certificate g env fs =
       (JsonResp 200
          [(''success'', PyBool True),
           (''message'', PyStr ''Professional certificate generated successfully''),
           (''pdf_base64'', PyStr (b64_encode pdf)),
           (''filename'', PyStr (file_stem data @ ''.pdf'')),
           (''generated_at'', PyStr (isoformat (ae_now env)))], fs)"
proof -
  assume j: "ae_json env = Inr (JObject data)" and ne: "data \<noteq> []" and c: "clean_env fs env"
    and h: "create_certificate_html (ae_compose env) data = Inr html"
    and r: "re_render (ae_render env) (gen_config g) (gen_options g) html = Inr pdf"
  have "gen_body env = Inr data" using j ne by (simp add: gen_body_Inr)
  moreover have "create_certificate g (ae_compose env) (ae_render env) data fs = (Inr pdf, fs)"
    using create_certificate_clean_env [OF c h] r by simp
  ultimately show ?thesis by (rule conjunct1 [OF generate_Inr])
qed

text \<open>
  C22 (equivalence).  Whenever \<open>generate_certificate_file\<close> sends a PDF, the JSON
  handler on the same request answers 200 with a \<open>pdf_base64\<close> field that decodes
  to exactly those bytes, and leaves the same file system.
\<close>

theorem generate_file_same_bytes:
  "generate_certificate_file g env fs = (FileResp pdf name mime, fs') \<Longrightarrow>
     \<exists>kv s. generate_certificate g env fs = (JsonResp 200 kv, fs')
       \<and> map_of kv ''pdf_base64'' = Some (PyStr s) \<and> b64_decode s = Some pdf"
proof -
  assume "generate_certificate_file g env fs = (FileResp pdf name mime, fs')"
  then obtain data where b: "gen_body env = Inr data"
    and c: "create_certificate g (ae_compose env) (ae_render env) data fs = (Inr pdf, fs')"
    using generate_file_FileResp by blast
  show ?thesis using conjunct1 [OF generate_Inr [OF b c]] b64_roundtrip [of pdf] by auto
qed

text \<open>
  C23 (functional).  Without \<open>certificate_id\<close> both file names say \<open>unknown\<close>
  while the certificate itself carries the generated identifier \<open>CERT-...\<close>: the
  name of the downloaded file does not derive from the identifier in the document.
\<close>

theorem filename_ignores_generated_id:
  "ae_json env = Inr (JObject data) \<Longrightarrow> \<not> dict_has data ''certificate_id'' \<Longrightarrow>
   generate_certificate g env fs = (JsonResp 200 kv, fs') \<Longrightarrow>
     map_of kv ''filename'' = Some (PyStr ''certificate_unknown.pdf'')
   \<and> resolved_cert_id (ae_compose env) data = PyStr (synth_cert_id (ce_uuid_hex (ae_compose env)))
   \<and> (\<forall>pdf name mime fs''. generate_certificate_file g env fs = (FileResp pdf name mime, fs'') \<longrightarrow>
        name = ''certificate_unknown_'' @ strftime_compact (ae_now env) @ ''.pdf'')"
proof -
  assume j: "ae_json env = Inr (JObject data)" and n: "\<not> dict_has data ''certificate_id''"
    and g: "generate_certificate g env fs = (JsonResp 200 kv, fs')"
  have stem: "file_stem data = ''certificate_unknown''" using n by (simp add: file_stem_def)
  from g obtain d pdf where b: "gen_body env = Inr d"
    and kv: "kv = [(''success'', PyBool True),
           (''message'', PyStr ''Professional certificate generated successfully''),
           (''pdf_base64'', PyStr (b64_encode pdf)),
           (''filename'', PyStr (file_stem d @ ''.pdf'')),
           (''generated_at'', PyStr (isoformat (ae_now env)))]"
    using generate_JsonResp_200 by blast
  from b j have d: "d = data" by (simp add: gen_body_Inr)
  have "\<forall>pdf name mime fs''. generate_certificate_file g env fs = (FileResp pdf name mime, fs'') \<longrightarrow>
        name = ''certificate_unknown_'' @ strftime_compact (ae_now env) @ ''.pdf''"
    using generate_file_FileResp b d stem by fastforce
  with kv d stem n show ?thesis by (simp add: resolved_cert_id_def)
qed

text \<open>
  C24 (error).  A body that is absent or false (\<open>null\<close>, \<open>{}\<close>, \<open>[]\<close>, \<open>""\<close>,
  \<open>0\<close>, \<open>false\<close>) gets 400 from the three POST handlers that check it, with an
  \<open>error\<close> message but no \<open>success\<close> flag, and nothing is written.
\<close>

theorem no_data_400:
  "ae_json env = Inr body \<Longrightarrow> \<not> body_truthy body \<Longrightarrow>
     \<exists>kv. generate_certificate g env fs = (JsonResp 400 kv, fs)
       \<and> generate_certificate_file g env fs = (JsonResp 400 kv, fs)
       \<and> preview_certificate env = JsonResp 400 kv
       \<and> map_of kv ''success'' = None \<and> map_of kv ''error'' = Some (PyStr ''No data provided'')"
proof -
  assume j: "ae_json env = Inr body" and f: "\<not> body_truthy body"
  then have "gen_body env = Inl no_data_resp" by (simp add: gen_body_def)
  then show ?thesis using j f
    by (simp add: generate_certificate_def generate_certificate_file_def preview_certificate_def no_data_resp_def)
qed

text \<open>
  C25 (error).  A renderer failure reaches the client of both generating handlers as
  a 500 response with \<open>success\<close> false and the renderer's own message after
  \<open>Failed to generate certificate:\<close>; the temporary file is removed.
\<close>

theorem render_error_500:
  "ae_json env = Inr (JObject data) \<Longrightarrow> data \<noteq> [] \<Longrightarrow> clean_env fs env \<Longrightarrow>
   create_certificate_html (ae_compose env) data = Inr html \<Longrightarrow>
   re_render (ae_render env) (gen_config g) (gen_options g) html = Inl e \<Longrightarrow>
     generate_certificate g env fs =
       (JsonResp 500 [(''success'', PyBool False), (''error'', PyStr (''Failed to generate certificate: '' @ exc_message e))], fs)
   \<and> generate_certificate_file g env fs =
       (JsonResp 500 [(''success'', PyBool False), (''error'', PyStr (''Failed to generate certificate: '' @ exc_message e))], fs)"
proof -
  assume j: "ae_json env = Inr (JObject data)" and ne: "data \<noteq> []" and c: "clean_env fs env"
    and h: "create_certificate_html (ae_compose env) data = Inr html"
    and r: "re_render (ae_render env) (gen_config g) (gen_options g) html = Inl e"
  have "gen_body env = Inr data" using j ne by (simp add: gen_body_Inr)
  moreover have "create_certificate g (ae_compose env) (ae_render env) data fs = (Inl e, fs)"
    using create_certificate_clean_env [OF c h] r by simp
  ultimately show ?thesis using generate_Inl by (simp add: fail_resp_def gen_failed_def)
qed

text \<open>
  C26 (error).  A body that is true but not a JSON object is not rejected as missing
  input: \<open>generate_certificate\<close> answers 500 with Python's error text, which comes
  from \<open>len\<close> for a number and from the first \<open>data.get\<close> for an array or a
  string.  Nothing is written.
\<close>

theorem non_object_body_500:
  "xs \<noteq> [] \<Longrightarrow> s \<noteq> [] \<Longrightarrow> i \<noteq> 0 \<Longrightarrow>
     generate_certificate g (env\<lparr>ae_json := Inr (JArray xs)\<rparr>) fs =
       (fail_resp gen_failed (AttributeError ''list'' ''get''), fs)
   \<and> generate_certificate g (env\<lparr>ae_json := Inr (JScalar (PyStr s))\<rparr>) fs =
       (fail_resp gen_failed (AttributeError ''str'' ''get''), fs)
   \<and> generate_certificate g (env\<lparr>ae_json := Inr (JScalar (PyInt i))\<rparr>) fs =
       (fail_resp gen_failed (TypeError (''object of type '' @ CHR 0x27 # ''int'' @ CHR 0x27 # '' has no len()'')), fs)"
  by (simp add: generate_certificate_def gen_body_def)

text \<open>
  C27 (error).  When \<open>request.get_json()\<close> raises (a werkzeug 415 or 400), the
  generating and preview handlers turn it into a 500 response with its text, while
  \<open>test_endpoint\<close>, which has no \<open>try\<close>, lets it reach Flask.
\<close>

theorem get_json_error:
  "ae_json env = Inl e \<Longrightarrow>
     generate_certificate g env fs = (fail_resp ''Failed to generate certificate: '' e, fs)
   \<and> generate_certificate_file g env fs = (fail_resp ''Failed to generate certificate: '' e, fs)
   \<and> preview_certificate env = fail_resp ''Failed to generate preview: '' e
   \<and> test_endpoint env = Uncaught e"
  by (simp add: generate_certificate_def generate_certificate_file_def gen_body_def preview_certificate_def
      test_endpoint_def gen_failed_def)

text \<open>
  C28 (functional).  \<open>test_endpoint\<close> reports the number of attributes of an object
  body (0 for \<open>{}\<close>), and raises, uncaught, on a non-zero number.
\<close>

theorem test_endpoint_count:
  "test_endpoint (env\<lparr>ae_json := Inr (JObject d)\<rparr>) =
     JsonResp 200 [(''message'', PyStr ''Professional Certificate API is working''),
       (''received_params'', PyInt (int (length d))), (''timestamp'', PyStr (isoformat (ae_now env)))]
   \<and> (i \<noteq> 0 \<longrightarrow> test_endpoint (env\<lparr>ae_json := Inr (JScalar (PyInt i))\<rparr>) =
        Uncaught (TypeError (''object of type '' @ CHR 0x27 # ''int'' @ CHR 0x27 # '' has no len()'')))"
  by (simp add: test_endpoint_def)

text \<open>
  C29 (functional).  The specification's end-to-end example: on
  \<open>{"certificate_id": "CERT-TEST-1", "final_status": "PASSED", "device_type": "SSD"}\<close>,
  with a clean pipeline and a renderer that produces bytes, \<open>generate\<close> succeeds with
  the file name \<open>certificate_CERT-TEST-1.pdf\<close> and a non-empty base64 payload, and
  \<open>preview\<close> returns HTML containing \<open>CERT-TEST-1\<close> and \<open>PASSED\<close>.
\<close>

theorem spec_end_to_end:
  "ae_json env = Inr (JObject spec_example) \<Longrightarrow> clean_env fs env \<Longrightarrow>
   (\<And>h. \<exists>pdf. re_render (ae_render env) (gen_config g) (gen_options g) h = Inr pdf \<and> pdf \<noteq> []) \<Longrightarrow>
     \<exists>kv s. generate_certificate g env fs = (JsonResp 200 kv, fs)
       \<and> map_of kv ''success'' = Some (PyBool True)
       \<and> map_of kv ''filename'' = Some (PyStr ''certificate_CERT-TEST-1.pdf'')
       \<and> map_of kv ''pdf_base64'' = Some (PyStr s) \<and> s \<noteq> []
       \<and> (\<exists>kv' html. preview_certificate env = JsonResp 200 kv' \<and> map_of kv' ''html_content'' = Some (PyStr html)
            \<and> str_in ''CERT-TEST-1'' html \<and> str_in ''PASSED'' html)"
proof -
  assume j: "ae_json env = Inr (JObject spec_example)" and c: "clean_env fs env"
    and r: "\<And>h. \<exists>pdf. re_render (ae_render env) (gen_config g) (gen_options g) h = Inr pdf \<and> pdf \<noteq> []"
  obtain html where h: "create_certificate_html (ae_compose env) spec_example = Inr html"
    using compose_spec_example by blast
  obtain pdf where p: "re_render (ae_render env) (gen_config g) (gen_options g) html = Inr pdf" and ne: "pdf \<noteq> []"
    using r by blast
  have b: "gen_body env = Inr spec_example" using j by (simp add: gen_body_Inr spec_example_def)
  have cc: "create_certificate g (ae_compose env) (ae_render env) spec_example fs = (Inr pdf, fs)"
    using create_certificate_clean_env [OF c h] p by simp
  have stem: "file_stem spec_example = ''certificate_CERT-TEST-1''"
    by (simp add: file_stem_def spec_example_def dict_get_Cons)
  have occ: "str_in ''CERT-TEST-1'' html \<and> str_in ''PASSED'' html"
    using compose_shows_id_status [OF h]
    by (simp add: resolved_cert_id_def resolved_status_def spec_example_def dict_get_Cons)
  have pv: "preview_certificate env = JsonResp 200 [(''success'', PyBool True), (''html_content'', PyStr html),
      (''message'', PyStr ''Professional certificate preview generated'')]"
    using j h by (simp add: preview_certificate_def spec_example_def)
  show ?thesis using conjunct1 [OF generate_Inr [OF b cc]] stem occ pv ne
    by (simp add: b64_encode_Nil_iff)
qed

text \<open>
  C30 (invariant).  Over any sequence of requests to any endpoints, if no temporary
  name is taken and no write or unlink raises, the file system after the sequence is
  the one before it: every render cleans up after itself.
\<close>

theorem serve_api_keeps_files:
  "\<forall>(ep, env) \<in> set rs. re_write (ae_render env) = None \<and> re_unlink (ae_render env) = None
      \<and> fs (re_tmp_name (ae_render env)) = None \<Longrightarrow>
     snd (serve_api g fs rs) = fs"
proof (induction rs)
  case Nil
  then show ?case by simp
next
  case (Cons r rs)
  obtain ep env where r: "r = (ep, env)" by fastforce
  with Cons.prems have "clean_env fs env" by (simp add: clean_env_def)
  then have "snd (route g ep env fs) = fs" by (rule route_clean_files)
  then obtain resp where "route g ep env fs = (resp, fs)" by (metis prod.collapse)
  with r Cons.IH Cons.prems show ?case by (simp add: split_beta)
qed

subsection \<open>Witnesses\<close>

lemma example_render_ok: "re_render example_render cfg opts h = Inr ''%PDF-1.4''"
  by (simp add: example_render_def)

lemma example_device_body: "[(''device_type'', PyStr ''SSD'')] \<noteq> []"
  by simp

theorem generate_success_witness:
  "\<exists>html. create_certificate_html example_env [(''device_type'', PyStr ''SSD'')] = Inr html
     \<and> generate_certificate example_generator (example_request (JObject [(''device_type'', PyStr ''SSD'')])) Map.empty =
       (JsonResp 200
          [(''success'', PyBool True),
           (''message'', PyStr ''Professional certificate generated successfully''),
           (''pdf_base64'', PyStr (b64_encode ''%PDF-1.4'')),
           (''filename'', PyStr ''certificate_unknown.pdf''),
           (''generated_at'', PyStr (isoformat (ce_now example_env)))], Map.empty)"
proof -
  let ?d = "[(''device_type'', PyStr ''SSD'')]"
  obtain html where c: "create_certificate_html example_env ?d = Inr html" using example_compose_device by blast
  have c': "create_certificate_html (ae_compose (example_request (JObject ?d))) ?d = Inr html" using c by simp
  have r: "re_render (ae_render (example_request (JObject ?d))) (gen_config example_generator)
      (gen_options example_generator) html = Inr ''%PDF-1.4''" by (simp add: example_render_ok)
  have j: "ae_json (example_request (JObject ?d)) = Inr (JObject ?d)" by simp
  show ?thesis
    using c generate_success [OF j example_device_body example_request_clean c' r]
    by (simp add: file_stem_def dict_get_Cons example_request_def)
qed

theorem generate_file_same_bytes_witness:
  "\<exists>kv s. generate_certificate example_generator (example_request (JObject [(''device_type'', PyStr ''SSD'')])) Map.empty
      = (JsonResp 200 kv, Map.empty)
     \<and> map_of kv ''pdf_base64'' = Some (PyStr s) \<and> b64_decode s = Some ''%PDF-1.4''"
proof -
  let ?d = "[(''device_type'', PyStr ''SSD'')]" and ?env = "example_request (JObject [(''device_type'', PyStr ''SSD'')])"
  obtain html where c: "create_certificate_html (ae_compose ?env) ?d = Inr html" using example_compose_device by auto
  have b: "gen_body ?env = Inr ?d" by (simp add: gen_body_Inr)
  have cc: "create_certificate example_generator (ae_compose ?env) (ae_render ?env) ?d Map.empty = (Inr ''%PDF-1.4'', Map.empty)"
    using create_certificate_clean_env [OF example_request_clean c] by (simp add: example_render_ok)
  obtain name where f: "generate_certificate_file example_generator ?env Map.empty
      = (FileResp ''%PDF-1.4'' name ''application/pdf'', Map.empty)"
    using conjunct2 [OF generate_Inr [OF b cc]] by blast
  show ?thesis by (rule generate_file_same_bytes [OF f])
qed

theorem filename_ignores_generated_id_witness:
  "map_of [(''success'', PyBool True),
           (''message'', PyStr ''Professional certificate generated successfully''),
           (''pdf_base64'', PyStr (b64_encode ''%PDF-1.4'')),
           (''filename'', PyStr ''certificate_unknown.pdf''),
           (''generated_at'', PyStr (isoformat (ce_now example_env)))] ''filename''
     = Some (PyStr ''certificate_unknown.pdf'')
   \<and> resolved_cert_id example_env [(''device_type'', PyStr ''SSD'')] = PyStr (synth_cert_id (ce_uuid_hex example_env))"
proof -
  let ?d = "[(''device_type'', PyStr ''SSD'')]" and ?env = "example_request (JObject [(''device_type'', PyStr ''SSD'')])"
  let ?kv = "[(''success'', PyBool True),
           (''message'', PyStr ''Professional certificate generated successfully''),
           (''pdf_base64'', PyStr (b64_encode ''%PDF-1.4'')),
           (''filename'', PyStr (file_stem ?d @ ''.pdf'')),
           (''generated_at'', PyStr (isoformat (ae_now ?env)))]"
  obtain html where c: "create_certificate_html (ae_compose ?env) ?d = Inr html" using example_compose_device by auto
  have b: "gen_body ?env = Inr ?d" by (simp add: gen_body_Inr)
  have cc: "create_certificate example_generator (ae_compose ?env) (ae_render ?env) ?d Map.empty = (Inr ''%PDF-1.4'', Map.empty)"
    using create_certificate_clean_env [OF example_request_clean c] by (simp add: example_render_ok)
  have g: "generate_certificate example_generator ?env Map.empty = (JsonResp 200 ?kv, Map.empty)"
    using conjunct1 [OF generate_Inr [OF b cc]] .
  have j: "ae_json ?env = Inr (JObject ?d)" by simp
  have n: "\<not> dict_has ?d ''certificate_id''" by (simp add: dict_has_Cons)
  show ?thesis using filename_ignores_generated_id [OF j n g]
    by (simp add: file_stem_def dict_get_Cons example_request_def)
qed

theorem no_data_400_witness:
  "\<exists>kv. generate_certificate example_generator (example_request (JObject [])) Map.empty = (JsonResp 400 kv, Map.empty)
     \<and> generate_certificate_file example_generator (example_request (JObject [])) Map.empty = (JsonResp 400 kv, Map.empty)
     \<and> preview_certificate (example_request (JObject [])) = JsonResp 400 kv
     \<and> map_of kv ''success'' = None \<and> map_of kv ''error'' = Some (PyStr ''No data provided'')"
proof -
  have j: "ae_json (example_request (JObject [])) = Inr (JObject [])" by simp
  have f: "\<not> body_truthy (JObject [])" by simp
  show ?thesis by (rule no_data_400 [OF j f])
qed

theorem render_error_500_witness:
  "generate_certificate example_generator
     ((example_request (JObject [(''device_type'', PyStr ''SSD'')]))\<lparr>ae_render :=
        example_render\<lparr>re_render := (\<lambda>cfg opts h. Inl (OSError ''wkhtmltopdf exited with non-zero code 1''))\<rparr>\<rparr>)
     Map.empty =
   (JsonResp 500 [(''success'', PyBool False),
      (''error'', PyStr ''Failed to generate certificate: wkhtmltopdf exited with non-zero code 1'')], Map.empty)"
proof -
  let ?d = "[(''device_type'', PyStr ''SSD'')]"
  let ?env = "(example_request (JObject ?d))\<lparr>ae_render :=
        example_render\<lparr>re_render := (\<lambda>cfg opts h. Inl (OSError ''wkhtmltopdf exited with non-zero code 1''))\<rparr>\<rparr>"
  obtain html where c: "create_certificate_html example_env ?d = Inr html" using example_compose_device by blast
  have c': "create_certificate_html (ae_compose ?env) ?d = Inr html" using c by (simp add: example_request_def)
  have j: "ae_json ?env = Inr (JObject ?d)" by (simp add: example_request_def)
  have cl: "clean_env Map.empty ?env" by (simp add: clean_env_def example_request_def example_render_def)
  have r: "re_render (ae_render ?env) (gen_config example_generator) (gen_options example_generator) html
      = Inl (OSError ''wkhtmltopdf exited with non-zero code 1'')" by simp
  show ?thesis using render_error_500 [OF j example_device_body cl c' r] by simp
qed

theorem non_object_body_500_witness:
  "generate_certificate example_generator ((example_request (JObject []))\<lparr>ae_json := Inr (JArray [PyInt 1])\<rparr>) Map.empty =
       (fail_resp gen_failed (AttributeError ''list'' ''get''), Map.empty)
   \<and> generate_certificate example_generator ((example_request (JObject []))\<lparr>ae_json := Inr (JScalar (PyStr ''abc''))\<rparr>) Map.empty =
       (fail_resp gen_failed (AttributeError ''str'' ''get''), Map.empty)
   \<and> generate_certificate example_generator ((example_request (JObject []))\<lparr>ae_json := Inr (JScalar (PyInt 5))\<rparr>) Map.empty =
       (fail_resp gen_failed (TypeError (''object of type '' @ CHR 0x27 # ''int'' @ CHR 0x27 # '' has no len()'')), Map.empty)"
  by (rule non_object_body_500) simp_all

theorem get_json_error_witness:
  "generate_certificate example_generator ((example_request (JObject []))\<lparr>ae_json := Inl (HTTPException 415 ''Unsupported Media Type'' ''Did not attempt to load JSON data'')\<rparr>) Map.empty
     = (JsonResp 500 [(''success'', PyBool False),
          (''error'', PyStr ''Failed to generate certificate: 415 Unsupported Media Type: Did not attempt to load JSON data'')], Map.empty)
   \<and> test_endpoint ((example_request (JObject []))\<lparr>ae_json := Inl (HTTPException 415 ''Unsupported Media Type'' ''Did not attempt to load JSON data'')\<rparr>)
     = Uncaught (HTTPException 415 ''Unsupported Media Type'' ''Did not attempt to load JSON data'')
   \<and> uncaught_status (HTTPException 415 ''Unsupported Media Type'' ''Did not attempt to load JSON data'') = 415"
proof -
  let ?e = "HTTPException 415 ''Unsupported Media Type'' ''Did not attempt to load JSON data''"
  have j: "ae_json ((example_request (JObject []))\<lparr>ae_json := Inl ?e\<rparr>) = Inl ?e" by simp
  have m: "nat_str 415 = ''415''" by code_simp
  show ?thesis using get_json_error [OF j, of example_generator Map.empty] by (simp add: fail_resp_def m)
qed

theorem test_endpoint_count_witness:
  "test_endpoint ((example_request (JObject []))\<lparr>ae_json := Inr (JObject spec_example)\<rparr>) =
     JsonResp 200 [(''message'', PyStr ''Professional Certificate API is working''),
       (''received_params'', PyInt 3), (''timestamp'', PyStr (isoformat (ce_now example_env)))]
   \<and> test_endpoint ((example_request (JObject []))\<lparr>ae_json := Inr (JScalar (PyInt 7))\<rparr>) =
        Uncaught (TypeError (''object of type '' @ CHR 0x27 # ''int'' @ CHR 0x27 # '' has no len()''))"
  using test_endpoint_count [where env = "example_request (JObject [])" and d = spec_example and i = 7]
  by (simp add: spec_example_def example_request_def)

theorem spec_end_to_end_witness:
  "\<exists>kv s. generate_certificate example_generator (example_request (JObject spec_example)) Map.empty = (JsonResp 200 kv, Map.empty)
       \<and> map_of kv ''success'' = Some (PyBool True)
       \<and> map_of kv ''filename'' = Some (PyStr ''certificate_CERT-TEST-1.pdf'')
       \<and> map_of kv ''pdf_base64'' = Some (PyStr s) \<and> s \<noteq> []
       \<and> (\<exists>kv' html. preview_certificate (example_request (JObject spec_example)) = JsonResp 200 kv'
            \<and> map_of kv' ''html_content'' = Some (PyStr html)
            \<and> str_in ''CERT-TEST-1'' html \<and> str_in ''PASSED'' html)"
proof -
  have j: "ae_json (example_request (JObject spec_example)) = Inr (JObject spec_example)" by simp
  have r: "\<exists>pdf. re_render (ae_render (example_request (JObject spec_example))) (gen_config example_generator)
      (gen_options example_generator) h = Inr pdf \<and> pdf \<noteq> []" for h
    by (simp add: example_render_ok)
  show ?thesis by (rule spec_end_to_end [OF j example_request_clean r])
qed

theorem serve_api_keeps_files_witness:
  "snd (serve_api example_generator Map.empty
     [(Generate, example_request (JObject spec_example)), (Preview, example_request (JObject [])),
      (GenerateFile, example_request (JArray [PyNone])), (Health, example_request (JObject []))]) = Map.empty"
  by (rule serve_api_keeps_files) (simp add: example_request_def example_render_def)

end
