(* ===== verification/Spec2Isabelle.thy ===== *)
theory Spec2Isabelle
  imports Api
begin

text \<open>
  \<^bold>\<open>A verification model of the SiH certificate backend (src/app.py).\<close>

  \<^bold>\<open>The program.\<close>  A Flask service turns a JSON object of attributes describing a
  data-sanitization job into a certificate.  \<open>ProfessionalCertificateGenerator\<close>
  holds the components: \<open>get_status_badge_style\<close> classifies the free-text status
  (lines 71--82); \<open>create_certificate_html\<close> resolves defaults and fills a fixed
  HTML template (lines 84--757); \<open>create_certificate\<close> writes the HTML to a
  temporary file, runs wkhtmltopdf on it through pdfkit and deletes the file
  (lines 759--797), with the executable found once by \<open>setup_wkhtmltopdf_config\<close>
  (lines 42--69).  Five Flask handlers (lines 802--896) call them.

  \<^bold>\<open>How the model reads the code.\<close>
  \<^item> Text is the UTF-8 bytes the pipeline writes (theory \<open>Prelude\<close>): Python's
    \<open>in\<close> on strings is \<open>str_in\<close>, \<open>lower\<close>/\<open>upper\<close> map ASCII letters
    (\<open>py_lower\<close>, \<open>py_upper\<close>), the slice \<open>s[:n]\<close> counts code points
    (\<open>utf8_take\<close>), \<open>str\<close> of an int is \<open>int_str\<close>.
  \<^item> JSON attribute values are \<open>pyval\<close> (None, bool, int, str; theory
    \<open>PyValues\<close>); an exception is a value of \<open>py_exc\<close> and every operation that
    can raise returns \<open>py_exc + 'a\<close>.  A request's \<open>dict\<close> is an association list;
    \<open>dict_get\<close> is \<open>dict.get\<close> with an eagerly evaluated default.
  \<^item> \<open>datetime.now()\<close> and \<open>uuid.uuid4()\<close> are inputs (record \<open>compose_env\<close>,
    theory \<open>Clock\<close> for the three timestamp formats).
  \<^item> Theory \<open>Status\<close>: \<open>get_status_badge_style\<close> with its four CSS strings, and the
    specification's classifier \<open>classify_status\<close> into SUCCESS, FAILURE, UNKNOWN.
  \<^item> Theory \<open>Template\<close>: the f-string of lines 93--755, line by line, generated from
    the source and checked against Python's own rendering of it; the locals it
    interpolates are the record \<open>cert_ctx\<close>; \<open>render_certificate\<close> is its value.
  \<^item> Theory \<open>Composer\<close>: \<open>cert_locals\<close> computes those locals and the three
    sub-expressions that raise, in Python's evaluation order;
    \<open>create_certificate_html\<close> renders them.

  \<^item> Theory \<open>Pipeline\<close>: \<open>__init__\<close> and \<open>setup_wkhtmltopdf_config\<close>
    (record \<open>generator\<close>, \<open>find_first\<close> for the search loop) and
    \<open>create_certificate\<close> over an explicit file system (\<open>files\<close>, a map from
    paths to contents): write, \<open>render_file\<close>, then \<open>finally_cleanup\<close>.  What
    tempfile, the write, pdfkit and \<open>os.unlink\<close> do is an input (record
    \<open>render_env\<close>), so every outcome of theirs is covered.  \<open>serve\<close> runs
    requests one after another, as the specification's outer serving layer does.
  \<^item> Theory \<open>Base64\<close>: \<open>base64.b64encode\<close> (line 812) and the standard decoder
    a client applies to \<open>pdf_base64\<close>.
  \<^item> Theory \<open>Api\<close>: the five handlers, each with every branch of the source
    (\<open>get_json\<close> raising, \<open>if not data\<close>, \<open>len(data)\<close>, the body not being an
    object, composition or rendering failing, success).  A request's inputs are the
    record \<open>api_env\<close>; a handler returns a \<open>response\<close> and the file system.
    \<open>route\<close> dispatches on the endpoint; \<open>serve_api\<close> runs a sequence of requests.

  \<^bold>\<open>What is proved.\<close>
  \<^item> Status badge (C1, C5--C8): the badge refines the specification's three-way
    classification on every non-empty string; the empty string gets a fourth style;
    success is tested before failure; non-strings raise; substring matching misreads
    ``Incomplete'', ``Unsuccessful'', ``Bypassed'' and ``No errors found''.
  \<^item> Composer (C2--C4, C9--C15): composition fails exactly on non-string status,
    date or identifier; every data item shows its value or \<open>N/A\<close>; the identifier
    fills every slot but the link holds it lowercased; the default signatories, the
    kept empty identifier, the signature date, independence from the token, the
    statement printed for any status, and values inserted without escaping.
  \<^item> Pipeline (C16--C20): a clean run returns the renderer's result and leaves the
    file system as it was; an unlink error masks the result and leaves the HTML on
    disk; a write error leaks the file; over a sequence of requests only such
    requests leave files behind (rule induction over the request list); the
    executable is the first existing candidate path.
  \<^item> Api (C21--C30): the success response carries the base64 of exactly the
    rendered bytes; it decodes (\<open>b64_roundtrip\<close>, proved for every byte string by
    the encoder's own recursion) to the bytes the file handler sends; file names say
    \<open>unknown\<close> rather than the generated identifier; the 400, 500 and uncaught
    error responses on each branch; the specification's end-to-end example; and
    over any sequence of requests to any endpoints the file system is unchanged when
    no write or unlink fails.

  \<^bold>\<open>Bounds and loops.\<close>  There is no unbounded loop: the search for the executable
  runs over four fixed paths, base64 recursion consumes three bytes per call, and
  \<open>nat_str\<close> divides by ten; all are total functions proved terminating by Isabelle.
  Timestamps are proved to have their fixed widths for years 1000--9999 only, the
  range in which \<open>%Y\<close> prints four digits.

  \<^bold>\<open>Not modelled.\<close>  Flask's JSON parsing (its result is an input), CORS,
  logging (no observable effect), pdfkit and wkhtmltopdf themselves (the renderer is
  an arbitrary function of configuration, options and HTML), the HTML bytes of the
  PDF, and the \<open>__main__\<close> block (prints only).  Floats, nested objects and
  arrays as attribute values are not modelled; Unicode case mapping is modelled on
  ASCII letters only.  Requests are served one after another; the interleaving of
  concurrent workers is not modelled beyond the freshness of temporary names.
\<close>

end
